theory Spec2Isabelle
  imports Complex_Main "HOL-Library.AList"
begin

section \<open>Common Python notions\<close>

text \<open>
  Python floats are modelled as the reals they denote (no rounding, no infinities).
  Every exception that the modelled code can raise is a value of \<open>error\<close>; a function
  that can raise returns \<open>error + 'a\<close>, with \<open>Inl\<close> for the exception.
\<close>

datatype error =
  KeyError | IndexError | ValueError | TypeError | ZeroDivisionError | AttributeError

text \<open>
  One-dimensional numpy arrays are lists of reals. A binary elementwise operation
  broadcasts an array of length one against the other operand and raises
  \<open>ValueError\<close> when the two lengths cannot be broadcast.
\<close>

definition np_binop :: "(real \<Rightarrow> real \<Rightarrow> real) \<Rightarrow> real list \<Rightarrow> real list \<Rightarrow> error + real list" where
  "np_binop f xs ys =
     (if length xs = length ys then Inr (map2 f xs ys)
      else if length xs = 1 then Inr (map (f (hd xs)) ys)
      else if length ys = 1 then Inr (map (\<lambda>x. f x (hd ys)) xs)
      else Inl ValueError)"

text \<open>An in-place operation \<open>a += b\<close> needs the broadcast result to have the shape of \<open>a\<close>.\<close>

definition np_iadd :: "real list \<Rightarrow> real list \<Rightarrow> error + real list" where
  "np_iadd xs ys =
     (case np_binop (+) xs ys of
        Inl e \<Rightarrow> Inl e
      | Inr zs \<Rightarrow> if length zs = length xs then Inr zs else Inl ValueError)"

definition np_clip :: "real \<Rightarrow> real \<Rightarrow> real \<Rightarrow> real" where
  "np_clip x lo hi = min (max x lo) hi"

section \<open>models/reactor\_model.py\<close>

record reactor_params =
  beta_i :: "real list"
  lambda_i :: "real list"
  Lambda :: real
  beta_total :: real
  alpha_f :: real
  alpha_c :: real
  C_f :: real
  C_c :: real
  Omega :: real
  P0 :: real
  T_inlet :: real
  T_coolant0 :: real
  T_fuel0 :: real

record reactor_state =
  power_level :: real
  precursor_concentrations :: "real list"
  T_fuel :: real
  T_moderator :: real

text \<open>The state that \<open>ReactorModel.__init__\<close> leaves behind.\<close>

definition reactor_init :: "reactor_params \<Rightarrow> reactor_state" where
  "reactor_init p =
     \<lparr>power_level = 0,
      precursor_concentrations = map (\<lambda>_. 0) (beta_i p),
      T_fuel = 0,
      T_moderator = 0\<rparr>"

text \<open>
  \<open>ReactorModel.reset\<close>: the precursors are put in equilibrium with the initial power.
  The elementwise division of numpy does not raise; where a decay constant is zero it
  gives an infinity, which the reals do not have (the quotient is then 0 here).
\<close>

definition reactor_reset :: "reactor_params \<Rightarrow> reactor_state \<Rightarrow> real \<Rightarrow> error + reactor_state" where
  "reactor_reset p s initial_power_fraction =
     (let s1 = s\<lparr>power_level := initial_power_fraction,
                 T_fuel := T_fuel0 p * initial_power_fraction,
                 T_moderator := T_coolant0 p * initial_power_fraction\<rparr>
      in if Lambda p > 1 / 10 ^ 9 then
           (case np_binop (/) (beta_i p) (map (\<lambda>l. l * Lambda p) (lambda_i p)) of
              Inl e \<Rightarrow> Inl e
            | Inr q \<Rightarrow>
                Inr (s1\<lparr>precursor_concentrations := map (\<lambda>x. x * power_level s1) q\<rparr>))
         else
           Inr (s1\<lparr>precursor_concentrations :=
                      map (\<lambda>_. 0) (precursor_concentrations s)\<rparr>))"

text \<open>
  The two point-kinetics derivatives as \<open>ReactorModel.step\<close> writes them: the power
  derivative from a power and the sum of the precursor decays, the precursor derivative
  from a power and the array of decays.
\<close>

definition dp_dt :: "reactor_params \<Rightarrow> real \<Rightarrow> real \<Rightarrow> real \<Rightarrow> real" where
  "dp_dt p rho pw lambda_c_sum =
     ((rho - beta_total p) / Lambda p) * pw + lambda_c_sum"

definition dc_dt :: "reactor_params \<Rightarrow> real \<Rightarrow> real list \<Rightarrow> error + real list" where
  "dc_dt p pw decay =
     np_binop (-) (map (\<lambda>b. (b / Lambda p) * pw) (beta_i p)) decay"

definition total_reactivity :: "reactor_params \<Rightarrow> reactor_state \<Rightarrow> real \<Rightarrow> real" where
  "total_reactivity p s rod_reactivity =
     (let delta_T_f = T_fuel s - T_fuel0 p;
          delta_T_c = T_moderator s - T_coolant0 p;
          rho_feedback = alpha_f p * delta_T_f + alpha_c p * delta_T_c
      in rho_feedback + rod_reactivity)"

text \<open>
  \<open>ReactorModel.step\<close>, statement by statement. The scalar divisions by \<open>Lambda\<close>,
  \<open>C_f\<close> and \<open>C_c\<close> raise \<open>ZeroDivisionError\<close> on a zero divisor. The result is the
  new state and the returned thermal power.
\<close>

definition reactor_step ::
  "reactor_params \<Rightarrow> reactor_state \<Rightarrow> real \<Rightarrow> real \<Rightarrow> error + (reactor_state \<times> real)" where
  "reactor_step p s dt rod_reactivity =
     (case np_binop (*) (lambda_i p) (precursor_concentrations s) of
        Inl e \<Rightarrow> Inl e
      | Inr decay0 \<Rightarrow>
     let lambda_c_sum = sum_list decay0 in
     if Lambda p = 0 then Inl ZeroDivisionError else
     let power1 = power_level s
                  + dp_dt p (total_reactivity p s rod_reactivity) (power_level s) lambda_c_sum * dt
     in
     (case np_binop (*) (lambda_i p) (precursor_concentrations s) of
        Inl e \<Rightarrow> Inl e
      | Inr decay \<Rightarrow>
     (case dc_dt p power1 decay of
        Inl e \<Rightarrow> Inl e
      | Inr dc \<Rightarrow>
     (case np_iadd (precursor_concentrations s) (map (\<lambda>d. d * dt) dc) of
        Inl e \<Rightarrow> Inl e
      | Inr precursors1 \<Rightarrow>
     let generated_power_mw = power1 * P0 p in
     if C_f p = 0 then Inl ZeroDivisionError else
     let dtf_dt = (1 / C_f p) * (generated_power_mw - Omega p * (T_fuel s - T_moderator s));
         T_fuel1 = T_fuel s + dtf_dt * dt
     in
     if C_c p = 0 then Inl ZeroDivisionError else
     let dtc_dt = (1 / C_c p) * (Omega p * (T_fuel1 - T_moderator s));
         T_moderator1 = T_moderator s + dtc_dt * dt;
         power2 = max 0 power1
     in Inr (\<lparr>power_level = power2,
              precursor_concentrations = precursors1,
              T_fuel = T_fuel1,
              T_moderator = T_moderator1\<rparr>,
             power2 * P0 p)))))"

text \<open>
  A run of the model: one \<open>step\<close> call per rod-reactivity input, all with the same
  \<open>dt\<close>; the run stops at the first exception. It returns the final state and the
  thermal powers returned by the calls, in order.
\<close>

fun reactor_run ::
  "reactor_params \<Rightarrow> reactor_state \<Rightarrow> real \<Rightarrow> real list \<Rightarrow> error + (reactor_state \<times> real list)" where
  "reactor_run p s dt [] = Inr (s, [])"
| "reactor_run p s dt (r # rs) =
     (case reactor_step p s dt r of
        Inl e \<Rightarrow> Inl e
      | Inr (s1, out) \<Rightarrow>
          (case reactor_run p s1 dt rs of
             Inl e \<Rightarrow> Inl e
           | Inr (s2, outs) \<Rightarrow> Inr (s2, out # outs)))"

text \<open>
  A valid reactor configuration: the two kinetics arrays have one entry per delay group,
  the divisors are non-zero and the nominal power is not negative.
\<close>

definition valid_reactor_params :: "reactor_params \<Rightarrow> bool" where
  "valid_reactor_params p \<longleftrightarrow>
     length (beta_i p) = length (lambda_i p) \<and> Lambda p \<noteq> 0 \<and> C_f p \<noteq> 0 \<and> C_c p \<noteq> 0
     \<and> 0 \<le> P0 p"

text \<open>
  The shape invariant of the state: one precursor concentration per delay group. The
  constructor and \<open>reset\<close> establish it and \<open>step\<close> keeps it.
\<close>

definition reactor_wf :: "reactor_params \<Rightarrow> reactor_state \<Rightarrow> bool" where
  "reactor_wf p s \<longleftrightarrow> length (precursor_concentrations s) = length (beta_i p)"

text \<open>
  The forward Euler updates in the words of the specification. The power after one step
  of size \<open>dt\<close>, with the derivative \<open>((rho - beta_total) / Lambda) * P + sum (lambda_i * C_i)\<close>
  taken at the state \<open>s\<close>; and the precursors after one step of size \<open>dt\<close>, with the
  derivative \<open>(beta_i / Lambda) * pw - lambda_i * C_i\<close> taken at the concentrations of \<open>s\<close>
  and at the power \<open>pw\<close>.
\<close>

definition spec_power_euler :: "reactor_params \<Rightarrow> reactor_state \<Rightarrow> real \<Rightarrow> real \<Rightarrow> real" where
  "spec_power_euler p s dt rod_reactivity =
     power_level s
     + dt * (((total_reactivity p s rod_reactivity - beta_total p) / Lambda p) * power_level s
             + sum_list (map2 (*) (lambda_i p) (precursor_concentrations s)))"

definition spec_precursor_euler ::
  "reactor_params \<Rightarrow> reactor_state \<Rightarrow> real \<Rightarrow> real \<Rightarrow> real list" where
  "spec_precursor_euler p s dt pw =
     map (\<lambda>(b, l, c). c + dt * ((b / Lambda p) * pw - l * c))
       (zip (beta_i p) (zip (lambda_i p) (precursor_concentrations s)))"

section \<open>models/grid\_model.py\<close>

text \<open>
  A load profile is a function of the simulation time and the step index; calling it can
  raise, as any Python call can.
\<close>

type_synonym load_profile = "real \<Rightarrow> int \<Rightarrow> error + real"

record grid_params =
  H :: real
  D :: real
  f_nominal :: real
  S_base :: real

record grid_state =
  frequency :: real
  omega_pu :: real
  delta :: real
  current_demand :: real
  load_profile_func :: "load_profile option"

definition grid_init :: "grid_params \<Rightarrow> grid_state" where
  "grid_init g =
     \<lparr>frequency = f_nominal g, omega_pu = 1, delta = 0, current_demand = 0,
      load_profile_func = None\<rparr>"

definition grid_reset :: "grid_params \<Rightarrow> grid_state \<Rightarrow> real \<Rightarrow> grid_state" where
  "grid_reset g s initial_load_mw =
     s\<lparr>frequency := f_nominal g, omega_pu := 1, delta := 0,
       current_demand := initial_load_mw,
       load_profile_func := Some (\<lambda>time_s step. Inr initial_load_mw)\<rparr>"

definition set_load_profile :: "grid_state \<Rightarrow> load_profile \<Rightarrow> grid_state" where
  "set_load_profile s load_func = s\<lparr>load_profile_func := Some load_func\<rparr>"

text \<open>
  The per-unit speed derivative of the swing equation, as \<open>GridModel.step\<close> computes it
  from the mechanical power, the demand it has just read and the speed before the step.
  The divisions by \<open>S_base\<close> and by \<open>2 * H\<close> raise on a zero divisor.
\<close>

definition d_omega_pu_dt :: "grid_params \<Rightarrow> real \<Rightarrow> real \<Rightarrow> real \<Rightarrow> error + real" where
  "d_omega_pu_dt g mechanical_power_mw demand omega =
     (if S_base g = 0 then Inl ZeroDivisionError else
      let p_m_pu = mechanical_power_mw / S_base g;
          p_e_pu = demand / S_base g
      in if 2 * H g = 0 then Inl ZeroDivisionError
         else Inr ((1 / (2 * H g)) * (p_m_pu - p_e_pu - D g * (omega - 1))))"

text \<open>\<open>GridModel.step\<close>; calling a missing profile (\<open>None\<close>) is a \<open>TypeError\<close>.\<close>

definition grid_step ::
  "grid_params \<Rightarrow> grid_state \<Rightarrow> real \<Rightarrow> real \<Rightarrow> real \<Rightarrow> int \<Rightarrow> error + grid_state" where
  "grid_step g s dt mechanical_power_mw time_s step_num =
     (case load_profile_func s of
        None \<Rightarrow> Inl TypeError
      | Some f \<Rightarrow>
     (case f time_s step_num of
        Inl e \<Rightarrow> Inl e
      | Inr demand \<Rightarrow>
     (case d_omega_pu_dt g mechanical_power_mw demand (omega_pu s) of
        Inl e \<Rightarrow> Inl e
      | Inr d_omega \<Rightarrow>
     let omega1 = omega_pu s + d_omega * dt;
         frequency1 = omega1 * f_nominal g;
         d_delta_dt = (omega1 - 1) * 2 * pi * f_nominal g
     in Inr (s\<lparr>frequency := frequency1, omega_pu := omega1,
                delta := delta s + d_delta_dt * dt,
                current_demand := demand\<rparr>))))"

section \<open>environment/reactor\_controller.py\<close>

record reactor_controller =
  rc_kp :: real
  rc_ki :: real
  rc_dt :: real
  rc_setpoint :: real
  rc_integral :: real
  rc_reactivity_limits :: "real \<times> real"

definition ReactorController_init :: "real \<Rightarrow> reactor_controller" where
  "ReactorController_init dt =
     \<lparr>rc_kp = 0.00008, rc_ki = 0.00002, rc_dt = dt, rc_setpoint = 306.5,
      rc_integral = 0, rc_reactivity_limits = (- 0.005, 0.005)\<rparr>"

definition ReactorController_reset :: "reactor_controller \<Rightarrow> real \<Rightarrow> reactor_controller" where
  "ReactorController_reset c setpoint = c\<lparr>rc_integral := 0, rc_setpoint := setpoint\<rparr>"

text \<open>\<open>ReactorController.step\<close>: the new controller and the returned rod reactivity.\<close>

definition ReactorController_step :: "reactor_controller \<Rightarrow> real \<Rightarrow> reactor_controller \<times> real" where
  "ReactorController_step c current_moderator_temp =
     (if rc_dt c \<le> 0 then (c, 0)
      else
        let err = rc_setpoint c - current_moderator_temp;
            integral1 = np_clip (rc_integral c + err * rc_dt c) (- 5) 5;
            reactivity_output = (rc_kp c * err) + (rc_ki c * integral1)
        in (c\<lparr>rc_integral := integral1\<rparr>,
            np_clip reactivity_output (fst (rc_reactivity_limits c))
              (snd (rc_reactivity_limits c))))"

section \<open>Python values\<close>

text \<open>
  Configurations are untyped in the source (\<open>Dict[str, Any]\<close>). A value is \<open>None\<close>, a
  bool, an int, a float, a string, a list, a tuple, a dict with string keys (an
  association list, looked up with \<open>map_of\<close>) or a load-profile function.
\<close>

datatype pyval =
    PNone
  | PBool bool
  | PInt int
  | PFloat real
  | PStr string
  | PList "pyval list"
  | PTuple "pyval list"
  | PDict "(string \<times> pyval) list"
  | PFun load_profile

text \<open>The numeric value of an int, a float or a bool (\<open>bool\<close> is a subclass of \<open>int\<close>).\<close>

fun py_num :: "pyval \<Rightarrow> real option" where
  "py_num (PInt i) = Some (of_int i)"
| "py_num (PFloat r) = Some r"
| "py_num (PBool b) = Some (if b then 1 else 0)"
| "py_num _ = None"

fun isinstance_dict :: "pyval \<Rightarrow> bool" where
  "isinstance_dict (PDict d) = True"
| "isinstance_dict _ = False"

text \<open>\<open>isinstance(v, (float, int))\<close>.\<close>

fun isinstance_float_int :: "pyval \<Rightarrow> bool" where
  "isinstance_float_int (PInt i) = True"
| "isinstance_float_int (PFloat r) = True"
| "isinstance_float_int (PBool b) = True"
| "isinstance_float_int _ = False"

text \<open>\<open>v[k]\<close> with a string key: only a dict accepts it.\<close>

fun py_getitem :: "pyval \<Rightarrow> string \<Rightarrow> error + pyval" where
  "py_getitem (PDict d) k = (case map_of d k of None \<Rightarrow> Inl KeyError | Some v \<Rightarrow> Inr v)"
| "py_getitem _ k = Inl TypeError"

text \<open>\<open>v.get(k, default)\<close>: only a dict has the method.\<close>

fun py_get :: "pyval \<Rightarrow> string \<Rightarrow> pyval \<Rightarrow> error + pyval" where
  "py_get (PDict d) k dflt = (case map_of d k of None \<Rightarrow> Inr dflt | Some v \<Rightarrow> Inr v)"
| "py_get _ k dflt = Inl AttributeError"

text \<open>
  \<open>v[i]\<close> with a non-negative literal index: an element of a list or tuple, a
  one-character string of a string; a dict (whose keys are strings) has no such key.
\<close>

fun py_index :: "pyval \<Rightarrow> nat \<Rightarrow> error + pyval" where
  "py_index (PList xs) i = (if i < length xs then Inr (xs ! i) else Inl IndexError)"
| "py_index (PTuple xs) i = (if i < length xs then Inr (xs ! i) else Inl IndexError)"
| "py_index (PStr s) i = (if i < length s then Inr (PStr [s ! i]) else Inl IndexError)"
| "py_index (PDict d) i = Inl KeyError"
| "py_index _ i = Inl TypeError"

text \<open>
  \<open>float(v)\<close>. The builtin's parser of strings is not part of the repository and is a
  parameter: \<open>str2float s\<close> is the parsed number, or \<open>None\<close> where the builtin raises
  \<open>ValueError\<close>.
\<close>

fun py_float :: "(string \<Rightarrow> real option) \<Rightarrow> pyval \<Rightarrow> error + real" where
  "py_float str2float (PFloat r) = Inr r"
| "py_float str2float (PInt i) = Inr (of_int i)"
| "py_float str2float (PBool b) = Inr (if b then 1 else 0)"
| "py_float str2float (PStr s) =
     (case str2float s of None \<Rightarrow> Inl ValueError | Some r \<Rightarrow> Inr r)"
| "py_float str2float _ = Inl TypeError"

section \<open>controllers/base\_controller.py and controllers/pid\_controller.py\<close>

record base_controller =
  self_config :: pyval
  self_dt :: real

text \<open>
  \<open>BaseController.__init__\<close>: the two validations, in the source's order. The stored
  time step is kept as the number it denotes.
\<close>

definition BaseController_init :: "pyval \<Rightarrow> pyval \<Rightarrow> error + base_controller" where
  "BaseController_init cfg dtv =
     (if \<not> isinstance_dict cfg then Inl TypeError
      else
        (case (if isinstance_float_int dtv then py_num dtv else None) of
           None \<Rightarrow> Inl ValueError
         | Some d \<Rightarrow>
             if d \<le> 0 then Inl ValueError
             else Inr \<lparr>self_config = cfg, self_dt = d\<rparr>))"

record pid_controller = base_controller +
  kp :: real
  ki :: real
  kd :: real
  setpoint :: real
  output_min :: real
  output_max :: real
  deriv_filter_tau :: real
  use_filter :: bool
  integral :: real
  previous_error :: real
  derivative_state :: real

definition MEASUREMENT_OBS_INDEX :: nat where
  "MEASUREMENT_OBS_INDEX = 4"

text \<open>\<open>float(config.get(key, default))\<close>.\<close>

definition get_float :: "(string \<Rightarrow> real option) \<Rightarrow> pyval \<Rightarrow> string \<Rightarrow> real \<Rightarrow> error + real" where
  "get_float str2float cfg k dflt =
     (case py_get cfg k (PFloat dflt) of
        Inl e \<Rightarrow> Inl e
      | Inr v \<Rightarrow> py_float str2float v)"

text \<open>\<open>float(output_limits[i])\<close>.\<close>

definition limit_at :: "(string \<Rightarrow> real option) \<Rightarrow> pyval \<Rightarrow> nat \<Rightarrow> error + real" where
  "limit_at str2float output_limits i =
     (case py_index output_limits i of
        Inl e \<Rightarrow> Inl e
      | Inr v \<Rightarrow> py_float str2float v)"

text \<open>
  \<open>PIDController.__init__\<close>. The \<open>except\<close> clause logs and re-raises, so every
  exception of the body is the exception of the constructor.
\<close>

definition PIDController_init ::
  "(string \<Rightarrow> real option) \<Rightarrow> pyval \<Rightarrow> pyval \<Rightarrow> error + pid_controller" where
  "PIDController_init str2float cfg dtv =
     (case BaseController_init cfg dtv of Inl e \<Rightarrow> Inl e | Inr b \<Rightarrow>
     (case get_float str2float cfg ''kp'' 0.20 of Inl e \<Rightarrow> Inl e | Inr kp0 \<Rightarrow>
     (case get_float str2float cfg ''ki'' 0.04 of Inl e \<Rightarrow> Inl e | Inr ki0 \<Rightarrow>
     (case get_float str2float cfg ''kd'' 0.05 of Inl e \<Rightarrow> Inl e | Inr kd0 \<Rightarrow>
     (case get_float str2float cfg ''setpoint'' 1800 of Inl e \<Rightarrow> Inl e | Inr sp \<Rightarrow>
     (case py_get cfg ''output_limits'' (PTuple [PFloat 0, PFloat 1]) of
        Inl e \<Rightarrow> Inl e | Inr output_limits \<Rightarrow>
     (case limit_at str2float output_limits 0 of Inl e \<Rightarrow> Inl e | Inr omin \<Rightarrow>
     (case limit_at str2float output_limits 1 of Inl e \<Rightarrow> Inl e | Inr omax \<Rightarrow>
     if omin \<ge> omax then Inl ValueError else
     (case get_float str2float cfg ''deriv_filter_tau'' 0.05 of Inl e \<Rightarrow> Inl e | Inr tau \<Rightarrow>
     Inr \<lparr>self_config = self_config b, self_dt = self_dt b,
          kp = kp0, ki = ki0, kd = kd0, setpoint = sp,
          output_min = omin, output_max = omax,
          deriv_filter_tau = tau,
          use_filter = (if self_dt b > 0 then tau > self_dt b * 1.5 else False),
          integral = 0, previous_error = 0, derivative_state = 0\<rparr>)))))))))"

text \<open>
  The measurement that \<open>PIDController.step\<close> reads: element 4 of the observation, or
  the setpoint when the \<open>IndexError\<close> of a shorter observation is caught.
\<close>

definition pid_measurement :: "pid_controller \<Rightarrow> real list \<Rightarrow> real" where
  "pid_measurement c observation =
     (if MEASUREMENT_OBS_INDEX < length observation then observation ! MEASUREMENT_OBS_INDEX
      else setpoint c)"

text \<open>
  \<open>PIDController.step\<close>: the new controller and the returned output. The division by
  \<open>dt\<close> is behind the guard \<open>dt <= 0\<close>; the division by the filter constant raises on
  zero.
\<close>

definition PIDController_step ::
  "pid_controller \<Rightarrow> real list \<Rightarrow> error + (pid_controller \<times> real)" where
  "PIDController_step c observation =
     (if self_dt c \<le> 0 then Inr (c, 0.5 * (output_max c + output_min c))
      else
        let measurement = pid_measurement c observation;
            err = setpoint c - measurement;
            p_term = kp c * err;
            raw_derivative = (err - previous_error c) / self_dt c
        in
        if use_filter c \<and> deriv_filter_tau c = 0 then Inl ZeroDivisionError else
        let derivative_state1 =
              (if use_filter c
               then derivative_state c
                    + ((raw_derivative - derivative_state c) / deriv_filter_tau c) * self_dt c
               else derivative_state c);
            effective_derivative = (if use_filter c then derivative_state1 else raw_derivative);
            d_term = kd c * effective_derivative;
            output_before_i = p_term + d_term;
            is_at_max_and_saturating = (output_before_i \<ge> output_max c \<and> err > 0);
            is_at_min_and_saturating = (output_before_i \<le> output_min c \<and> err < 0);
            integral1 =
              (if \<not> is_at_max_and_saturating \<and> \<not> is_at_min_and_saturating
               then integral c + err * self_dt c else integral c);
            i_term = ki c * integral1;
            output_unclamped = p_term + i_term + d_term;
            output_final = np_clip output_unclamped (output_min c) (output_max c)
        in Inr (c\<lparr>derivative_state := derivative_state1, integral := integral1,
                   previous_error := err\<rparr>,
                output_final))"

definition PIDController_reset :: "pid_controller \<Rightarrow> pid_controller" where
  "PIDController_reset c = c\<lparr>integral := 0, previous_error := 0, derivative_state := 0\<rparr>"

text \<open>
  What \<open>__init__\<close> establishes and no method changes: a positive time step, ordered
  output limits, and a filter that is used only with a time constant that is not zero
  (the constructor uses it only with one above \<open>1.5 * dt\<close>).
\<close>

definition pid_inv :: "pid_controller \<Rightarrow> bool" where
  "pid_inv c \<longleftrightarrow>
     0 < self_dt c \<and> output_min c < output_max c
     \<and> (use_filter c \<longrightarrow> deriv_filter_tau c \<noteq> 0)"

text \<open>
  The two conditions on the constructor's arguments. In the words of the specification
  the configuration is a non-empty mapping; \<open>isinstance_dict\<close> above is the check the
  code makes. A positive time step is a number (int, float or bool) above zero.
\<close>

fun nonempty_mapping :: "pyval \<Rightarrow> bool" where
  "nonempty_mapping (PDict d) = (d \<noteq> [])"
| "nonempty_mapping _ = False"

definition positive_time_step :: "pyval \<Rightarrow> bool" where
  "positive_time_step dtv = (case py_num dtv of None \<Rightarrow> False | Some d \<Rightarrow> 0 < d)"

section \<open>analysis/scenario\_definitions.py\<close>

text \<open>
  The load-profile generators. Their arguments are floats, as annotated, so the
  \<open>float(...)\<close> conversions inside them are identities.
\<close>

definition constant_load :: "real \<Rightarrow> load_profile" where
  "constant_load load_mw = (\<lambda>time_s step. Inr load_mw)"

definition gradual_load_change :: "real \<Rightarrow> real \<Rightarrow> real \<Rightarrow> real \<Rightarrow> load_profile" where
  "gradual_load_change initial final start_t duration0 =
     (let duration = (if duration0 \<le> 1 / 10 ^ 6 then 1 / 10 ^ 6 else duration0)
      in (\<lambda>time_s step.
            if time_s < start_t then Inr initial
            else if time_s < start_t + duration then
              (let fraction = (time_s - start_t) / duration
               in Inr (initial + (final - initial) * fraction))
            else Inr final))"

definition step_load_change :: "real \<Rightarrow> real \<Rightarrow> real \<Rightarrow> load_profile" where
  "step_load_change initial final step_t =
     (\<lambda>time_s step. Inr (if time_s \<ge> step_t then final else initial))"

text \<open>The loop of \<open>multi_step_load_profile\<close>: it stops at the first entry not yet started.\<close>

fun multi_step_scan :: "real \<Rightarrow> real \<Rightarrow> (real \<times> real) list \<Rightarrow> real" where
  "multi_step_scan time_s current_load [] = current_load"
| "multi_step_scan time_s current_load ((load, start_time) # rest) =
     (if time_s \<ge> start_time then multi_step_scan time_s load rest else current_load)"

definition multi_step_load_profile :: "(real \<times> real) list \<Rightarrow> load_profile" where
  "multi_step_load_profile steps =
     (\<lambda>time_s step.
        case steps of
          [] \<Rightarrow> Inl IndexError
        | first # _ \<Rightarrow> Inr (multi_step_scan time_s (fst first) steps))"

text \<open>\<open>int(x)\<close> of a float: truncation towards zero.\<close>

definition py_int :: "real \<Rightarrow> int" where
  "py_int x = (if 0 \<le> x then \<lfloor>x\<rfloor> else \<lceil>x\<rceil>)"

text \<open>
  The body of the \<open>try\<close> block of \<open>get_scenarios\<close>: the three configuration values.
\<close>

definition scenario_config_values :: "pyval \<Rightarrow> error + (pyval \<times> pyval \<times> pyval)" where
  "scenario_config_values core_config =
     (case py_getitem core_config ''simulation'' of Inl e \<Rightarrow> Inl e | Inr sim \<Rightarrow>
     (case py_getitem sim ''dt'' of Inl e \<Rightarrow> Inl e | Inr sim_dt \<Rightarrow>
     (case py_get core_config ''initial_conditions'' (PDict []) of Inl e \<Rightarrow> Inl e | Inr ic \<Rightarrow>
     (case py_get ic ''electrical_load_mw'' (PFloat 3008.5) of
        Inl e \<Rightarrow> Inl e | Inr initial_load_base \<Rightarrow>
     (case py_get core_config ''coupling'' (PDict []) of Inl e \<Rightarrow> Inl e | Inr coupling \<Rightarrow>
     (case py_get coupling ''eta_transfer'' (PFloat 0.98) of
        Inl e \<Rightarrow> Inl e | Inr eta_base \<Rightarrow>
     Inr (sim_dt, initial_load_base, eta_base)))))))"

text \<open>
  The scenario table as the assignments build it, before the final loop, for a numeric
  non-zero time step \<open>sim_dt\<close>, a numeric base load and a numeric efficiency (given both
  as the configuration's value \<open>eta_base\<close> and as the number \<open>eta\<close> it denotes).
\<close>

definition define_scenarios :: "real \<Rightarrow> real \<Rightarrow> pyval \<Rightarrow> real \<Rightarrow> (string \<times> pyval) list" where
  "define_scenarios sim_dt initial_load_base eta_base eta =
     [(''baseline_steady_state'', PDict
        [(''description'', PStr ''Baseline steady-state operation at 90% power.''),
         (''load_profile_func'', PFun (constant_load initial_load_base)),
         (''max_steps'', PInt (py_int (500 / sim_dt))),
         (''reset_options'', PDict [(''initial_power_level'', PFloat 0.9)])]),
      (''gradual_load_increase_10pct'', PDict
        [(''description'', PStr ''Gradual load ramp from 90% to 100%.''),
         (''load_profile_func'',
            PFun (gradual_load_change (initial_load_base * 0.9) initial_load_base 20 300)),
         (''max_steps'', PInt (py_int (400 / sim_dt))),
         (''reset_options'', PDict [(''initial_power_level'', PFloat 0.9)])]),
      (''sudden_load_increase_5pct'', PDict
        [(''description'', PStr ''Sudden +5% load increase from nominal.''),
         (''load_profile_func'',
            PFun (step_load_change initial_load_base (initial_load_base * 1.05) 20)),
         (''max_steps'', PInt (py_int (300 / sim_dt)))]),
      (''steady_state_efficiency_probe'', PDict
        [(''description'', PStr ''RL Drill: A long, quiet hold to enforce control efficiency.''),
         (''load_profile_func'', PFun (constant_load initial_load_base)),
         (''max_steps'', PInt (py_int (1800 / sim_dt))),
         (''is_efficiency_probe'', PBool True)]),
      (''deceptive_sensor_noise'', PDict
        [(''description'',
            PStr ''Adversarial Test: High, dynamic sensor noise during a load ramp.''),
         (''load_profile_func'',
            PFun (gradual_load_change (initial_load_base * 0.9) initial_load_base 20 300)),
         (''max_steps'', PInt (py_int (400 / sim_dt))),
         (''reset_options'', PDict [(''initial_power_level'', PFloat 0.9)]),
         (''adversarial_noise'', PDict
            [(''active'', PBool True), (''initial_magnitude'', PFloat 0.05),
             (''final_magnitude'', PFloat 0.15), (''bias_magnitude'', PFloat 8)]),
         (''is_adversarial_drill'', PBool True)]),
      (''parameter_randomization_drills'', PDict
        [(''description'',
            PStr ''RL Drill: Train against randomized physics for generalization.''),
         (''load_profile_func'', PFun (constant_load initial_load_base)),
         (''max_steps'', PInt (py_int (400 / sim_dt))),
         (''is_domain_randomization_drill'', PBool True),
         (''is_adversarial_drill'', PBool True)]),
      (''cascading_grid_fault_and_recovery'', PDict
        [(''description'',
            PStr ''Adversarial Drill: A cascading grid fault followed by recovery demand.''),
         (''load_profile_func'', PFun (multi_step_load_profile
            [(initial_load_base, 0),
             (initial_load_base * 0.8, 20),
             (initial_load_base * 0.85, 120),
             (initial_load_base * 1.05, 150)])),
         (''max_steps'', PInt (py_int (500 / sim_dt))),
         (''env_modifications'', PList
            [PDict [(''type'', PStr ''grid_power_imbalance''), (''imbalance_mw'', PFloat 50),
                    (''start_time'', PFloat 20), (''end_time'', PFloat 25)]]),
         (''is_adversarial_drill'', PBool True)]),
      (''combined_challenge_final_exam'', PDict
        [(''description'',
            PStr ''Final Exam: Compound failure with grid fault, component degradation, and noise.''),
         (''load_profile_func'',
            PFun (step_load_change initial_load_base (initial_load_base * 1.1) 20)),
         (''max_steps'', PInt (py_int (400 / sim_dt))),
         (''env_modifications'', PList
            [PDict [(''type'', PStr ''parameter_ramp''),
                    (''parameter_path'', PList [PStr ''coupling'', PStr ''eta_transfer'']),
                    (''start_value'', eta_base), (''end_value'', PFloat (eta * 0.90)),
                    (''start_time'', PFloat 50), (''duration'', PFloat 150)]]),
         (''adversarial_noise'', PDict
            [(''active'', PBool True), (''initial_magnitude'', PFloat 0.02),
             (''final_magnitude'', PFloat 0.05), (''bias_magnitude'', PFloat 2)]),
         (''is_adversarial_drill'', PBool True)])]"

text \<open>The body of the final loop: a missing \<open>reset_options\<close> becomes the empty dict.\<close>

fun ensure_reset_options :: "pyval \<Rightarrow> pyval" where
  "ensure_reset_options (PDict config_dict) =
     (if map_of config_dict ''reset_options'' = None
      then PDict (config_dict @ [(''reset_options'', PDict [])])
      else PDict config_dict)"
| "ensure_reset_options v = v"

text \<open>
  \<open>get_scenarios\<close>. A \<open>KeyError\<close> of the \<open>try\<close> block gives the empty table; any other
  exception propagates. Of the assignments, the first expression that can raise is
  \<open>500 / sim_dt\<close> (a non-numeric or zero time step), then \<open>initial_load_base * 0.9\<close>,
  then \<open>eta_base * 0.90\<close> (a non-numeric value each): the checks below are in that order.
\<close>

definition get_scenarios :: "pyval \<Rightarrow> error + (string \<times> pyval) list" where
  "get_scenarios core_config =
     (case scenario_config_values core_config of
        Inl e \<Rightarrow> if e = KeyError then Inr [] else Inl e
      | Inr (sim_dt, initial_load_base, eta_base) \<Rightarrow>
     (case py_num sim_dt of None \<Rightarrow> Inl TypeError | Some dtv \<Rightarrow>
     if dtv = 0 then Inl ZeroDivisionError else
     (case py_num initial_load_base of None \<Rightarrow> Inl TypeError | Some load \<Rightarrow>
     (case py_num eta_base of None \<Rightarrow> Inl TypeError | Some eta \<Rightarrow>
     Inr (map (\<lambda>(name, config_dict). (name, ensure_reset_options config_dict))
            (define_scenarios dtv load eta_base eta))))))"

section \<open>analysis/metrics\_engine.py\<close>

text \<open>A float64 cell of a DataFrame, and a metric value: a number or NaN.\<close>

datatype fl = NaN | Num real

fun fl_sub :: "fl \<Rightarrow> fl \<Rightarrow> fl" where
  "fl_sub (Num a) (Num b) = Num (a - b)"
| "fl_sub _ _ = NaN"

fun fl_add :: "fl \<Rightarrow> fl \<Rightarrow> fl" where
  "fl_add (Num a) (Num b) = Num (a + b)"
| "fl_add _ _ = NaN"

text \<open>
  A DataFrame of float columns: the length of its index and its columns by name.
  \<open>df.empty\<close> holds when either axis has length zero.
\<close>

record dataframe =
  df_len :: nat
  df_columns :: "(string \<times> fl list) list"

definition df_empty :: "dataframe \<Rightarrow> bool" where
  "df_empty df \<longleftrightarrow> df_len df = 0 \<or> df_columns df = []"

definition has_column :: "dataframe \<Rightarrow> string \<Rightarrow> bool" where
  "has_column df k \<longleftrightarrow> k \<in> set (map fst (df_columns df))"

text \<open>\<open>df[k]\<close>: a missing column is a \<open>KeyError\<close>.\<close>

definition df_col :: "dataframe \<Rightarrow> string \<Rightarrow> error + fl list" where
  "df_col df k = (case map_of (df_columns df) k of None \<Rightarrow> Inl KeyError | Some c \<Rightarrow> Inr c)"

definition METRIC_KEYS :: "string list" where
  "METRIC_KEYS =
     [''transient_severity_score'', ''grid_load_following_index'',
      ''agility_response_time_index'', ''integrated_thermal_margin_violation_c_s'',
      ''thermal_transient_burden'', ''core_power_oscillation_index'',
      ''max_rotor_angle_deviation_rad'', ''negative_damping_events'', ''control_policy_entropy'',
      ''max_overshoot_speed_pct'', ''max_undershoot_speed_pct'', ''iae_freq_hz_s'', ''ise_freq_hz_s'',
      ''time_over_fuel_temp_limit_s'', ''time_over_speed_limit_s'', ''time_outside_freq_limit_s'',
      ''total_time_unsafe_s'', ''max_fuel_temp_c'', ''max_speed_rpm'', ''max_freq_deviation_hz'',
      ''min_freq_nadir_hz'', ''control_effort_valve_abs_sum'', ''control_effort_valve_sq_sum'',
      ''valve_reversals'']"

type_synonym metrics = "(string \<times> fl) list"

text \<open>The dictionary \<open>{key: np.nan for key in self.METRIC_KEYS}\<close>.\<close>

definition nan_metrics :: metrics where
  "nan_metrics = map (\<lambda>key. (key, NaN)) METRIC_KEYS"

text \<open>
  The numerical expressions of the metrics are calls into pandas, numpy and scipy, which
  are not part of the repository. They are parameters of the model: \<open>expr name columns
  values floats\<close> is the value of the expression that defines \<open>name\<close>, given the columns,
  the configuration values and the floats it reads, and \<open>test\<close> is the same for the two
  conditions that are computed numerically. Either can raise.
\<close>

record numerics =
  expr :: "string \<Rightarrow> fl list list \<Rightarrow> pyval list \<Rightarrow> fl list \<Rightarrow> error + fl"
  test :: "string \<Rightarrow> fl list list \<Rightarrow> pyval list \<Rightarrow> fl list \<Rightarrow> error + bool"

record metrics_engine =
  me_config :: pyval
  safety_limits :: pyval

definition MetricsEngine_init :: "pyval \<Rightarrow> error + metrics_engine" where
  "MetricsEngine_init core_config =
     (case py_get core_config ''safety_limits'' (PDict []) of
        Inl e \<Rightarrow> Inl e
      | Inr sl \<Rightarrow> Inr \<lparr>me_config = core_config, safety_limits = sl\<rparr>)"

text \<open>Sequencing of statements that can raise.\<close>

definition and_then :: "error + 'a \<Rightarrow> ('a \<Rightarrow> error + 'b) \<Rightarrow> error + 'b" where
  "and_then r f = (case r of Inl e \<Rightarrow> Inl e | Inr x \<Rightarrow> f x)"

text \<open>\<open>metrics[key] = value\<close>, for a value whose expression can raise.\<close>

definition assign :: "string \<Rightarrow> error + fl \<Rightarrow> metrics \<Rightarrow> error + metrics" where
  "assign key r m = and_then r (\<lambda>v. Inr (AList.update key v m))"

text \<open>\<open>metrics[key]\<close> for a key of the dictionary, which is always present.\<close>

definition metric :: "metrics \<Rightarrow> string \<Rightarrow> fl" where
  "metric m key = (case map_of m key of None \<Rightarrow> NaN | Some v \<Rightarrow> v)"

text \<open>\<open>self.config.get(group, {}).get(key, default)\<close>.\<close>

definition config_get2 :: "pyval \<Rightarrow> string \<Rightarrow> string \<Rightarrow> pyval \<Rightarrow> error + pyval" where
  "config_get2 cfg g k dflt = and_then (py_get cfg g (PDict [])) (\<lambda>d. py_get d k dflt)"

text \<open>\<open>s.lower()\<close> on the ASCII letters; only a string has the method.\<close>

definition lower_char :: "char \<Rightarrow> char" where
  "lower_char c =
     (let n = (of_char c :: nat)
      in if 65 \<le> n \<and> n \<le> 90 then char_of (n + 32) else c)"

fun py_lower :: "pyval \<Rightarrow> error + string" where
  "py_lower (PStr s) = Inr (map lower_char s)"
| "py_lower _ = Inl AttributeError"

text \<open>\<open>sub in s\<close> for strings.\<close>

fun is_prefix_of :: "string \<Rightarrow> string \<Rightarrow> bool" where
  "is_prefix_of [] s = True"
| "is_prefix_of (a # as) [] = False"
| "is_prefix_of (a # as) (b # bs) = (a = b \<and> is_prefix_of as bs)"

fun str_contains :: "string \<Rightarrow> string \<Rightarrow> bool" where
  "str_contains sub [] = (sub = [])"
| "str_contains sub (c # cs) = (is_prefix_of sub (c # cs) \<or> str_contains sub cs)"

text \<open>\<open>dt = time[1] - time[0] if len(time) > 1 else 0.02\<close>.\<close>

definition sample_dt :: "fl list \<Rightarrow> fl" where
  "sample_dt time = (if length time > 1 then fl_sub (time ! 1) (time ! 0) else Num 0.02)"

text \<open>
  The body of the \<open>try\<close> block of \<open>MetricsEngine.calculate\<close>, one definition per group of
  statements, in the source's order. Each takes the dictionary built so far and returns
  the updated one, or the exception raised.
\<close>

definition load_following :: "numerics \<Rightarrow> dataframe \<Rightarrow> metrics \<Rightarrow> error + metrics" where
  "load_following lib df m =
     and_then (df_col df ''load_demand_mw'') (\<lambda>load.
     and_then (df_col df ''mechanical_power_mw'') (\<lambda>mech.
     assign ''grid_load_following_index''
       (expr lib ''grid_load_following_index'' [load, mech] [] []) m))"

definition agility ::
  "numerics \<Rightarrow> metrics_engine \<Rightarrow> dataframe \<Rightarrow> pyval \<Rightarrow> metrics \<Rightarrow> error + metrics" where
  "agility lib self df scenario_config m =
     and_then (py_get scenario_config ''description'' (PStr [])) (\<lambda>d.
     and_then (py_lower d) (\<lambda>description.
     if str_contains ''sudden'' description then
       and_then (df_col df ''load_demand_mw'') (\<lambda>load.
       and_then (test lib ''load_diff'' [load] [] []) (\<lambda>load_diff_not_empty.
       if load_diff_not_empty then
         and_then (df_col df ''time_s'') (\<lambda>time.
         and_then (df_col df ''mechanical_power_mw'') (\<lambda>mech.
         and_then (py_get (safety_limits self) ''arti_response_threshold'' (PFloat 0.9))
           (\<lambda>response_threshold.
         and_then (test lib ''response_indices'' [time, load, mech] [response_threshold] [])
           (\<lambda>response_indices_not_empty.
         if response_indices_not_empty then
           assign ''agility_response_time_index''
             (expr lib ''agility_response_time_index'' [time, load, mech]
                [response_threshold] []) m
         else Inr m))))
       else Inr m))
     else Inr m))"

definition thermal_margin ::
  "numerics \<Rightarrow> metrics_engine \<Rightarrow> dataframe \<Rightarrow> fl list \<Rightarrow> metrics \<Rightarrow> error + metrics" where
  "thermal_margin lib self df time m =
     and_then (py_get (safety_limits self) ''max_fuel_temp_c'' (PFloat 2800)) (\<lambda>limit.
     and_then (py_get (safety_limits self) ''fuel_temp_warning_fraction'' (PFloat 0.95))
       (\<lambda>fraction.
     and_then (df_col df ''T_fuel'') (\<lambda>fuel.
     assign ''integrated_thermal_margin_violation_c_s''
       (expr lib ''integrated_thermal_margin_violation_c_s'' [fuel, time]
          [limit, fraction] []) m)))"

definition thermal_burden ::
  "numerics \<Rightarrow> dataframe \<Rightarrow> fl list \<Rightarrow> fl \<Rightarrow> metrics \<Rightarrow> error + metrics" where
  "thermal_burden lib df time dt m =
     (if has_column df ''T_moderator'' then
        and_then (df_col df ''T_moderator'') (\<lambda>moderator.
        if \<not> list_all (\<lambda>x. x = NaN) moderator then
          assign ''thermal_transient_burden''
            (expr lib ''thermal_transient_burden'' [moderator, drop 1 time] [] [dt]) m
        else Inr m)
      else Inr m)"

definition power_oscillation :: "numerics \<Rightarrow> dataframe \<Rightarrow> metrics \<Rightarrow> error + metrics" where
  "power_oscillation lib df m =
     and_then (df_col df ''reactor_power_mw'') (\<lambda>reactor_power.
     let final_power_segment = drop (nat (py_int (real (df_len df) * 0.5))) reactor_power
     in assign ''core_power_oscillation_index''
          (expr lib ''core_power_oscillation_index'' [final_power_segment] [] []) m)"

definition rotor_angle :: "numerics \<Rightarrow> dataframe \<Rightarrow> metrics \<Rightarrow> error + metrics" where
  "rotor_angle lib df m =
     (if has_column df ''rotor_angle_rad'' then
        and_then (df_col df ''rotor_angle_rad'') (\<lambda>angle.
        if list_ex (\<lambda>x. x \<noteq> NaN) angle then
          assign ''max_rotor_angle_deviation_rad''
            (expr lib ''max_rotor_angle_deviation_rad'' [angle] [] []) m
        else Inr m)
      else Inr m)"

definition negative_damping ::
  "numerics \<Rightarrow> dataframe \<Rightarrow> pyval \<Rightarrow> metrics \<Rightarrow> error + metrics" where
  "negative_damping lib df f_nom m =
     and_then (df_col df ''grid_frequency_hz'') (\<lambda>freq.
     and_then (df_col df ''mechanical_power_mw'') (\<lambda>mech.
     and_then (df_col df ''load_demand_mw'') (\<lambda>load.
     assign ''negative_damping_events''
       (expr lib ''negative_damping_events'' [freq, mech, load] [f_nom] []) m)))"

definition policy_entropy :: "numerics \<Rightarrow> dataframe \<Rightarrow> metrics \<Rightarrow> error + metrics" where
  "policy_entropy lib df m =
     and_then (df_col df ''v_pos_actual'') (\<lambda>valve.
     let valve_pos = filter (\<lambda>x. x \<noteq> NaN) valve
     in if length valve_pos > 1 then
          assign ''control_policy_entropy''
            (expr lib ''control_policy_entropy'' [valve_pos] [] []) m
        else Inr m)"

definition standard_metrics ::
  "numerics \<Rightarrow> dataframe \<Rightarrow> pyval \<Rightarrow> metrics \<Rightarrow> error + metrics" where
  "standard_metrics lib df f_nom m =
     and_then (df_col df ''grid_frequency_hz'') (\<lambda>freq.
     and_then (assign ''max_freq_deviation_hz''
                 (expr lib ''max_freq_deviation_hz'' [freq] [f_nom] []) m) (\<lambda>m.
     and_then (assign ''min_freq_nadir_hz''
                 (expr lib ''min_freq_nadir_hz'' [freq] [] []) m) (\<lambda>m.
     and_then (df_col df ''speed_rpm'') (\<lambda>speed.
     and_then (assign ''max_speed_rpm'' (expr lib ''max_speed_rpm'' [speed] [] []) m) (\<lambda>m.
     and_then (df_col df ''T_fuel'') (\<lambda>fuel.
     assign ''max_fuel_temp_c'' (expr lib ''max_fuel_temp_c'' [fuel] [] []) m))))))"

definition overshoot ::
  "numerics \<Rightarrow> dataframe \<Rightarrow> pyval \<Rightarrow> metrics \<Rightarrow> error + metrics" where
  "overshoot lib df target_speed_rpm m =
     and_then (df_col df ''speed_rpm'') (\<lambda>speed.
     let peak_speed = metric m ''max_speed_rpm'' in
     and_then (assign ''max_overshoot_speed_pct''
                 (expr lib ''max_overshoot_speed_pct'' [speed] [target_speed_rpm] [peak_speed])
                 m) (\<lambda>m.
     assign ''max_undershoot_speed_pct''
       (expr lib ''max_undershoot_speed_pct'' [speed] [target_speed_rpm] []) m))"

definition freq_integrals ::
  "numerics \<Rightarrow> dataframe \<Rightarrow> fl list \<Rightarrow> pyval \<Rightarrow> metrics \<Rightarrow> error + metrics" where
  "freq_integrals lib df time f_nom m =
     and_then (df_col df ''grid_frequency_hz'') (\<lambda>freq.
     and_then (assign ''iae_freq_hz_s'' (expr lib ''iae_freq_hz_s'' [freq, time] [f_nom] []) m)
       (\<lambda>m.
     assign ''ise_freq_hz_s'' (expr lib ''ise_freq_hz_s'' [freq, time] [f_nom] []) m))"

definition valve_effort :: "numerics \<Rightarrow> dataframe \<Rightarrow> metrics \<Rightarrow> error + metrics" where
  "valve_effort lib df m =
     and_then (df_col df ''v_pos_actual'') (\<lambda>valve.
     and_then (assign ''control_effort_valve_abs_sum''
                 (expr lib ''control_effort_valve_abs_sum'' [valve] [] []) m) (\<lambda>m.
     and_then (assign ''control_effort_valve_sq_sum''
                 (expr lib ''control_effort_valve_sq_sum'' [valve] [] []) m) (\<lambda>m.
     assign ''valve_reversals'' (expr lib ''valve_reversals'' [valve] [] []) m)))"

definition transient_severity ::
  "numerics \<Rightarrow> metrics_engine \<Rightarrow> pyval \<Rightarrow> metrics \<Rightarrow> error + metrics" where
  "transient_severity lib self target_speed_rpm m =
     and_then (py_get (safety_limits self) ''transient_severity_weights'' (PDict []))
       (\<lambda>weights.
     and_then (py_get (safety_limits self) ''freq_deviation_limit_hz'' (PFloat 1))
       (\<lambda>freq_dev_limit.
     and_then (py_get (safety_limits self) ''max_speed_rpm'' (PFloat 2250)) (\<lambda>speed_limit.
     assign ''transient_severity_score''
       (expr lib ''transient_severity_score'' []
          [weights, freq_dev_limit, speed_limit, target_speed_rpm]
          [metric m ''max_speed_rpm'', metric m ''max_freq_deviation_hz'']) m)))"

definition unsafe_times ::
  "numerics \<Rightarrow> metrics_engine \<Rightarrow> dataframe \<Rightarrow> fl \<Rightarrow> metrics \<Rightarrow> error + metrics" where
  "unsafe_times lib self df dt m =
     and_then (df_col df ''T_fuel'') (\<lambda>fuel.
     and_then (py_get (safety_limits self) ''max_fuel_temp_c'' (PInt 9999)) (\<lambda>fuel_limit.
     and_then (assign ''time_over_fuel_temp_limit_s''
                 (expr lib ''time_over_fuel_temp_limit_s'' [fuel] [fuel_limit] [dt]) m) (\<lambda>m.
     and_then (df_col df ''speed_rpm'') (\<lambda>speed.
     and_then (py_get (safety_limits self) ''max_speed_rpm'' (PInt 9999)) (\<lambda>speed_limit.
     and_then (assign ''time_over_speed_limit_s''
                 (expr lib ''time_over_speed_limit_s'' [speed] [speed_limit] [dt]) m) (\<lambda>m.
     and_then (df_col df ''grid_frequency_hz'') (\<lambda>freq.
     and_then (py_get (safety_limits self) ''min_frequency_hz'' (PInt 0)) (\<lambda>freq_lo.
     and_then (py_get (safety_limits self) ''max_frequency_hz'' (PInt 99)) (\<lambda>freq_hi.
     and_then (assign ''time_outside_freq_limit_s''
                 (expr lib ''time_outside_freq_limit_s'' [freq] [freq_lo, freq_hi] [dt]) m)
       (\<lambda>m.
     Inr (AList.update ''total_time_unsafe_s''
            (fl_add (fl_add (metric m ''time_over_fuel_temp_limit_s'')
                       (metric m ''time_over_speed_limit_s''))
               (metric m ''time_outside_freq_limit_s'')) m)))))))))))"

definition calculate_body ::
  "numerics \<Rightarrow> metrics_engine \<Rightarrow> dataframe \<Rightarrow> pyval \<Rightarrow> metrics \<Rightarrow> error + metrics" where
  "calculate_body lib self results_df scenario_config m0 =
     and_then (df_col results_df ''time_s'') (\<lambda>time.
     let dt = sample_dt time in
     and_then (config_get2 (me_config self) ''grid'' ''f_nominal'' (PFloat 60)) (\<lambda>f_nom.
     and_then (config_get2 (me_config self) ''turbine'' ''omega_nominal_rpm'' (PFloat 1800))
       (\<lambda>target_speed_rpm.
     and_then (load_following lib results_df m0) (\<lambda>m.
     and_then (agility lib self results_df scenario_config m) (\<lambda>m.
     and_then (thermal_margin lib self results_df time m) (\<lambda>m.
     and_then (thermal_burden lib results_df time dt m) (\<lambda>m.
     and_then (power_oscillation lib results_df m) (\<lambda>m.
     and_then (rotor_angle lib results_df m) (\<lambda>m.
     and_then (negative_damping lib results_df f_nom m) (\<lambda>m.
     and_then (policy_entropy lib results_df m) (\<lambda>m.
     and_then (standard_metrics lib results_df f_nom m) (\<lambda>m.
     and_then (overshoot lib results_df target_speed_rpm m) (\<lambda>m.
     and_then (freq_integrals lib results_df time f_nom m) (\<lambda>m.
     and_then (valve_effort lib results_df m) (\<lambda>m.
     and_then (transient_severity lib self target_speed_rpm m) (\<lambda>m.
     unsafe_times lib self results_df dt m))))))))))))))))"

text \<open>
  \<open>MetricsEngine.calculate\<close>: the robustness check, then the \<open>try\<close> block, whose
  \<open>except Exception\<close> clause returns a fresh dictionary of NaNs.
\<close>

definition calculate ::
  "numerics \<Rightarrow> metrics_engine \<Rightarrow> dataframe \<Rightarrow> pyval \<Rightarrow> error + metrics" where
  "calculate lib self results_df scenario_config =
     (let metrics = nan_metrics in
      if df_empty results_df \<or> \<not> has_column results_df ''time_s'' \<or> df_len results_df < 20
      then Inr metrics
      else
        (case calculate_body lib self results_df scenario_config metrics of
           Inl e \<Rightarrow> Inr nan_metrics
         | Inr m \<Rightarrow> Inr m))"

text \<open>
  The dictionary that a statement of the \<open>try\<close> block leaves behind, if it returns one,
  has the keys of \<open>METRIC_KEYS\<close>, in their order.
\<close>

definition keeps_keys :: "error + metrics \<Rightarrow> bool" where
  "keeps_keys r \<longleftrightarrow> (case r of Inl e \<Rightarrow> True | Inr m \<Rightarrow> map fst m = METRIC_KEYS)"

section \<open>Properties of the reactor model\<close>

lemma np_binop_same: "length xs = length ys \<Longrightarrow> np_binop f xs ys = Inr (map2 f xs ys)"
  by (simp add: np_binop_def)

lemma np_iadd_same: "length xs = length ys \<Longrightarrow> np_iadd xs ys = Inr (map2 (+) xs ys)"
  by (simp add: np_iadd_def np_binop_same)

lemma reactor_step_Inr:
  assumes "valid_reactor_params p" "reactor_wf p s"
  shows "reactor_step p s dt r =
     Inr (\<lparr>power_level = max 0 (spec_power_euler p s dt r),
           precursor_concentrations = spec_precursor_euler p s dt (spec_power_euler p s dt r),
           T_fuel = T_fuel s + (1 / C_f p) * (spec_power_euler p s dt r * P0 p - Omega p * (T_fuel s - T_moderator s)) * dt,
           T_moderator = T_moderator s + (1 / C_c p) * (Omega p * (T_fuel s + (1 / C_f p) * (spec_power_euler p s dt r * P0 p - Omega p * (T_fuel s - T_moderator s)) * dt - T_moderator s)) * dt\<rparr>,
          max 0 (spec_power_euler p s dt r) * P0 p)"
proof -
  have len: "length (beta_i p) = length (lambda_i p)"
    "length (precursor_concentrations s) = length (beta_i p)"
    "Lambda p \<noteq> 0" "C_f p \<noteq> 0" "C_c p \<noteq> 0"
    using assms by (simp_all add: valid_reactor_params_def reactor_wf_def)
  have pw: "power_level s + dp_dt p (total_reactivity p s r) (power_level s)
               (sum_list (map2 (*) (lambda_i p) (precursor_concentrations s))) * dt
            = spec_power_euler p s dt r"
    by (simp add: dp_dt_def spec_power_euler_def mult.commute)
  show ?thesis
    using len
    apply (simp add: reactor_step_def np_binop_same np_iadd_same dc_dt_def Let_def pw
        spec_precursor_euler_def)
    apply (simp add: list_eq_iff_nth_eq algebra_simps)
    done
qed

lemma reactor_step_wf:
  assumes "valid_reactor_params p" "reactor_wf p s" "reactor_step p s dt r = Inr (s', out)"
  shows "reactor_wf p s' \<and> 0 \<le> power_level s' \<and> 0 \<le> out"
  using assms(3) assms(1,2) unfolding reactor_step_Inr[OF assms(1,2)]
  by (auto simp: reactor_wf_def spec_precursor_euler_def valid_reactor_params_def)

lemma reactor_run_ok:
  assumes "valid_reactor_params p" "reactor_wf p s" "0 \<le> power_level s"
  shows "\<exists>s' outs. reactor_run p s dt rods = Inr (s', outs) \<and> reactor_wf p s'
           \<and> 0 \<le> power_level s' \<and> (\<forall>out \<in> set outs. 0 \<le> out) \<and> length outs = length rods"
  using assms(2,3)
proof (induction rods arbitrary: s)
  case Nil
  then show ?case by simp
next
  case (Cons r rods)
  obtain s1 out where st: "reactor_step p s dt r = Inr (s1, out)"
    using reactor_step_Inr[OF assms(1) Cons.prems(1)] by blast
  from reactor_step_wf[OF assms(1) Cons.prems(1) st]
  have "reactor_wf p s1" "0 \<le> power_level s1" "0 \<le> out" by simp_all
  from Cons.IH[OF this(1,2)] obtain s' outs where
    "reactor_run p s1 dt rods = Inr (s', outs)" "reactor_wf p s'" "0 \<le> power_level s'"
    "\<forall>out \<in> set outs. 0 \<le> out" "length outs = length rods" by blast
  with st \<open>0 \<le> out\<close> show ?case by simp
qed

lemma reactor_reset_ok:
  assumes "valid_reactor_params p" "reactor_wf p s0"
  shows "\<exists>s1. reactor_reset p s0 f = Inr s1 \<and> reactor_wf p s1 \<and> power_level s1 = f"
  using assms
  by (auto simp: reactor_reset_def valid_reactor_params_def reactor_wf_def np_binop_same Let_def)

text \<open>
  Claim C1. For a valid configuration, a time step \<open>dt > 0\<close> and any sequence of
  rod-reactivity inputs, a run of \<open>step\<close> calls that starts from \<open>reset\<close> with a
  non-negative initial power fraction raises no exception, and the power fraction stored
  after the run and every thermal power returned during it are non-negative.
\<close>

theorem reactor_power_nonneg:
  assumes "valid_reactor_params p" and "0 < dt" and "0 \<le> initial_power_fraction"
    and "reactor_wf p s0"
  shows "\<exists>s1 s2 outs.
           reactor_reset p s0 initial_power_fraction = Inr s1
         \<and> reactor_run p s1 dt rods = Inr (s2, outs)
         \<and> length outs = length rods
         \<and> 0 \<le> power_level s2
         \<and> (\<forall>out \<in> set outs. 0 \<le> out)"
proof -
  obtain s1 where r: "reactor_reset p s0 initial_power_fraction = Inr s1" "reactor_wf p s1"
    "power_level s1 = initial_power_fraction"
    using reactor_reset_ok[OF assms(1,4)] by blast
  then have "0 \<le> power_level s1" using assms(3) by simp
  from reactor_run_ok[OF assms(1) r(2) this, of dt rods] r(1)
  show ?thesis by blast
qed

theorem reactor_power_nonneg_witness:
  "valid_reactor_params
     \<lparr>beta_i = [1/4, 1/4], lambda_i = [1, 2], Lambda = 1, beta_total = 1/2, alpha_f = 0,
      alpha_c = 0, C_f = 1, C_c = 1, Omega = 1, P0 = 3000, T_inlet = 0, T_coolant0 = 300,
      T_fuel0 = 600\<rparr>
   \<and> (\<exists>s1 s2 outs.
        reactor_reset
          \<lparr>beta_i = [1/4, 1/4], lambda_i = [1, 2], Lambda = 1, beta_total = 1/2, alpha_f = 0,
           alpha_c = 0, C_f = 1, C_c = 1, Omega = 1, P0 = 3000, T_inlet = 0, T_coolant0 = 300,
           T_fuel0 = 600\<rparr>
          \<lparr>power_level = 0, precursor_concentrations = [0, 0], T_fuel = 0, T_moderator = 0\<rparr>
          1 = Inr s1
      \<and> reactor_run
          \<lparr>beta_i = [1/4, 1/4], lambda_i = [1, 2], Lambda = 1, beta_total = 1/2, alpha_f = 0,
           alpha_c = 0, C_f = 1, C_c = 1, Omega = 1, P0 = 3000, T_inlet = 0, T_coolant0 = 300,
           T_fuel0 = 600\<rparr>
          s1 (1/10) [- 20, 0] = Inr (s2, outs)
      \<and> length outs = length [- 20, 0 :: real]
      \<and> 0 \<le> power_level s2
      \<and> (\<forall>out \<in> set outs. 0 \<le> out))"
  using reactor_power_nonneg [of
      "\<lparr>beta_i = [1/4, 1/4], lambda_i = [1, 2], Lambda = 1, beta_total = 1/2, alpha_f = 0,
        alpha_c = 0, C_f = 1, C_c = 1, Omega = 1, P0 = 3000, T_inlet = 0, T_coolant0 = 300,
        T_fuel0 = 600\<rparr>"
      "1/10" 1
      "\<lparr>power_level = 0, precursor_concentrations = [0, 0], T_fuel = 0, T_moderator = 0\<rparr>"
      "[- 20, 0]"]
  by (simp add: valid_reactor_params_def reactor_wf_def)

text \<open>
  Claim C3, as the code has it. \<open>step\<close> advances the power by one forward Euler step
  whose derivative is taken at the state at the start of the step, and stores it clamped
  at zero; it advances each precursor concentration by one Euler step whose derivative
  takes the concentration at the start of the step and the power already advanced (and
  not yet clamped), not the power at the start of the step.
\<close>

theorem reactor_step_kinetics:
  assumes "valid_reactor_params p" and "reactor_wf p s"
  shows "\<exists>s' out.
           reactor_step p s dt rod_reactivity = Inr (s', out)
         \<and> power_level s' = max 0 (spec_power_euler p s dt rod_reactivity)
         \<and> precursor_concentrations s'
             = spec_precursor_euler p s dt (spec_power_euler p s dt rod_reactivity)"
  by (simp add: reactor_step_Inr[OF assms])

theorem reactor_step_kinetics_witness:
  "\<exists>s' out.
     reactor_step
       \<lparr>beta_i = [1], lambda_i = [1], Lambda = 1, beta_total = 1, alpha_f = 0, alpha_c = 0,
        C_f = 1, C_c = 1, Omega = 0, P0 = 1, T_inlet = 0, T_coolant0 = 0, T_fuel0 = 0\<rparr>
       \<lparr>power_level = 1, precursor_concentrations = [0], T_fuel = 0, T_moderator = 0\<rparr>
       1 2 = Inr (s', out)
   \<and> power_level s' = 2 \<and> precursor_concentrations s' = [2]"
  using reactor_step_kinetics [of
      "\<lparr>beta_i = [1], lambda_i = [1], Lambda = 1, beta_total = 1, alpha_f = 0, alpha_c = 0,
        C_f = 1, C_c = 1, Omega = 0, P0 = 1, T_inlet = 0, T_coolant0 = 0, T_fuel0 = 0\<rparr>"
      "\<lparr>power_level = 1, precursor_concentrations = [0], T_fuel = 0, T_moderator = 0\<rparr>"
      1 2]
  by (simp add: valid_reactor_params_def reactor_wf_def spec_power_euler_def
      spec_precursor_euler_def total_reactivity_def)

theorem reactor_step_precursors_counterexample:
  "reactor_step
     \<lparr>beta_i = [1], lambda_i = [1], Lambda = 1, beta_total = 1, alpha_f = 0, alpha_c = 0,
      C_f = 1, C_c = 1, Omega = 0, P0 = 1, T_inlet = 0, T_coolant0 = 0, T_fuel0 = 0\<rparr>
     \<lparr>power_level = 1, precursor_concentrations = [0], T_fuel = 0, T_moderator = 0\<rparr>
     1 2
   = Inr (\<lparr>power_level = 2, precursor_concentrations = [2], T_fuel = 2, T_moderator = 0\<rparr>, 2)
   \<and> spec_precursor_euler
       \<lparr>beta_i = [1], lambda_i = [1], Lambda = 1, beta_total = 1, alpha_f = 0, alpha_c = 0,
        C_f = 1, C_c = 1, Omega = 0, P0 = 1, T_inlet = 0, T_coolant0 = 0, T_fuel0 = 0\<rparr>
       \<lparr>power_level = 1, precursor_concentrations = [0], T_fuel = 0, T_moderator = 0\<rparr>
       1 1
     = [1]
   \<and> [2] \<noteq> [1 :: real]"
  by (simp add: reactor_step_def np_binop_def np_iadd_def dc_dt_def dp_dt_def
      total_reactivity_def spec_precursor_euler_def Let_def)

text \<open>
  Claim C4. In a grid state with per-unit speed 1 whose load profile returns a demand
  equal to the mechanical power passed to \<open>step\<close>, the per-unit speed derivative is 0,
  and after the step the per-unit speed is still 1 and the frequency is the nominal one
  (for an inertia constant and a system base that are not zero, without which \<open>step\<close>
  cannot divide).
\<close>

theorem grid_equilibrium:
  assumes "omega_pu s = 1"
    and "load_profile_func s = Some f"
    and "f time_s step_num = Inr demand"
    and "mechanical_power_mw = demand"
    and "H g \<noteq> 0" and "S_base g \<noteq> 0"
  shows "d_omega_pu_dt g mechanical_power_mw demand (omega_pu s) = Inr 0
       \<and> (\<exists>s'. grid_step g s dt mechanical_power_mw time_s step_num = Inr s'
               \<and> omega_pu s' = 1 \<and> frequency s' = f_nominal g)"
  using assms by (simp add: d_omega_pu_dt_def grid_step_def)

theorem grid_equilibrium_witness:
  "d_omega_pu_dt \<lparr>H = 5, D = 2, f_nominal = 60, S_base = 1000\<rparr> 900 900
     (omega_pu (grid_reset \<lparr>H = 5, D = 2, f_nominal = 60, S_base = 1000\<rparr>
        (grid_init \<lparr>H = 5, D = 2, f_nominal = 60, S_base = 1000\<rparr>) 900)) = Inr 0
   \<and> (\<exists>s'. grid_step \<lparr>H = 5, D = 2, f_nominal = 60, S_base = 1000\<rparr>
             (grid_reset \<lparr>H = 5, D = 2, f_nominal = 60, S_base = 1000\<rparr>
                (grid_init \<lparr>H = 5, D = 2, f_nominal = 60, S_base = 1000\<rparr>) 900)
             (1/50) 900 0 0 = Inr s'
          \<and> omega_pu s' = 1 \<and> frequency s' = 60)"
  using grid_equilibrium [of
      "grid_reset \<lparr>H = 5, D = 2, f_nominal = 60, S_base = 1000\<rparr>
         (grid_init \<lparr>H = 5, D = 2, f_nominal = 60, S_base = 1000\<rparr>) 900"
      "\<lambda>time_s step. Inr 900" 0 0 900 900
      "\<lparr>H = 5, D = 2, f_nominal = 60, S_base = 1000\<rparr>" "1/50"]
  by (simp add: grid_reset_def grid_init_def)

lemma np_clip_bounds: "lo \<le> hi \<Longrightarrow> lo \<le> np_clip x lo hi \<and> np_clip x lo hi \<le> hi"
  by (auto simp: np_clip_def)

text \<open>
  Claim C5. Whatever the time step, the setpoint and the integral term of the inner
  reactor controller, and whatever the moderator temperature, the rod reactivity that
  \<open>step\<close> returns lies within the limits \<open>[-0.005, 0.005]\<close> that the constructor sets.
\<close>

theorem reactor_controller_output_bounded:
  "- 0.005 \<le> snd (ReactorController_step
                    ((ReactorController_init dt0)
                       \<lparr>rc_dt := dt1, rc_setpoint := sp, rc_integral := integ\<rparr>)
                    current_moderator_temp)
   \<and> snd (ReactorController_step
           ((ReactorController_init dt0)
              \<lparr>rc_dt := dt1, rc_setpoint := sp, rc_integral := integ\<rparr>)
           current_moderator_temp) \<le> 0.005"
proof (cases "dt1 \<le> 0")
  case True
  then show ?thesis
    by (simp add: ReactorController_step_def ReactorController_init_def)
next
  case False
  then obtain x where
    "snd (ReactorController_step
           ((ReactorController_init dt0)
              \<lparr>rc_dt := dt1, rc_setpoint := sp, rc_integral := integ\<rparr>)
           current_moderator_temp) = np_clip x (- 0.005) 0.005"
    by (simp add: ReactorController_step_def ReactorController_init_def Let_def)
  then show ?thesis
    using np_clip_bounds [of "- 0.005" "0.005" x] by simp
qed

section \<open>Properties of the controllers\<close>

lemma PIDController_init_inv:
  assumes "PIDController_init str2float cfg dtv = Inr c"
  shows "pid_inv c"
  using assms
  by (auto simp: PIDController_init_def BaseController_init_def pid_inv_def
      split: sum.splits if_splits option.splits)

lemma PIDController_step_inv:
  assumes "pid_inv c" "PIDController_step c observation = Inr (c', out)"
  shows "pid_inv c'"
  using assms
  by (auto simp: PIDController_step_def pid_inv_def Let_def split: if_splits)

lemma pid_inv_filter: "pid_inv c \<Longrightarrow> use_filter c \<Longrightarrow> deriv_filter_tau c \<noteq> 0"
  by (auto simp: pid_inv_def)

text \<open>
  Claim C9. For a controller as the constructor builds it and an observation vector with
  fewer than 5 elements, \<open>PIDController.step\<close> does not raise. It does what it does on
  an observation whose element 4 is the setpoint: the measurement is the setpoint, the
  error is zero, so the proportional term vanishes, the integral is unchanged, the
  derivative is that of an error falling from the previous error to zero, and the error
  recorded for the next step is zero. The returned output is the sum of the integral and
  derivative terms clipped to \<open>[output_min, output_max]\<close>, and so lies within them.
\<close>

theorem pid_step_short_observation:
  assumes "pid_inv c" and "length observation < 5"
  shows "PIDController_step c observation = PIDController_step c [0, 0, 0, 0, setpoint c]
       \<and> PIDController_step c observation =
           (let raw_derivative = (0 - previous_error c) / self_dt c;
                derivative_state1 =
                  (if use_filter c
                   then derivative_state c
                        + ((raw_derivative - derivative_state c) / deriv_filter_tau c) * self_dt c
                   else derivative_state c);
                effective_derivative =
                  (if use_filter c then derivative_state1 else raw_derivative)
            in Inr (c\<lparr>derivative_state := derivative_state1, integral := integral c,
                       previous_error := 0\<rparr>,
                    np_clip (ki c * integral c + kd c * effective_derivative)
                      (output_min c) (output_max c)))
       \<and> (\<exists>c' out.
             PIDController_step c observation = Inr (c', out)
           \<and> pid_measurement c observation = setpoint c
           \<and> previous_error c' = 0
           \<and> output_min c \<le> out \<and> out \<le> output_max c)"
proof -
  have m: "pid_measurement c observation = setpoint c"
    using assms(2) by (simp add: pid_measurement_def MEASUREMENT_OBS_INDEX_def)
  have m': "pid_measurement c [0, 0, 0, 0, setpoint c] = setpoint c"
    by (simp add: pid_measurement_def MEASUREMENT_OBS_INDEX_def)
  have dt: "\<not> self_dt c \<le> 0" and lim: "output_min c \<le> output_max c"
    using assms(1) by (simp_all add: pid_inv_def)
  have tau: "\<not> (use_filter c \<and> deriv_filter_tau c = 0)"
    using pid_inv_filter[OF assms(1)] by blast
  have same: "PIDController_step c observation = PIDController_step c [0, 0, 0, 0, setpoint c]"
    by (simp add: PIDController_step_def m m')
  have st: "PIDController_step c observation =
           (let raw_derivative = (0 - previous_error c) / self_dt c;
                derivative_state1 =
                  (if use_filter c
                   then derivative_state c
                        + ((raw_derivative - derivative_state c) / deriv_filter_tau c) * self_dt c
                   else derivative_state c);
                effective_derivative =
                  (if use_filter c then derivative_state1 else raw_derivative)
            in Inr (c\<lparr>derivative_state := derivative_state1, integral := integral c,
                       previous_error := 0\<rparr>,
                    np_clip (ki c * integral c + kd c * effective_derivative)
                      (output_min c) (output_max c)))"
    using dt tau by (simp add: PIDController_step_def m Let_def)
  then obtain c' x where r: "PIDController_step c observation
        = Inr (c', np_clip x (output_min c) (output_max c))"
    and pe: "previous_error c' = 0"
    by (simp add: Let_def)
  have "\<exists>c' out.
             PIDController_step c observation = Inr (c', out)
           \<and> pid_measurement c observation = setpoint c
           \<and> previous_error c' = 0
           \<and> output_min c \<le> out \<and> out \<le> output_max c"
    using r pe m np_clip_bounds[OF lim, of x] by simp
  with same st show ?thesis by (intro conjI)
qed

theorem pid_step_short_observation_witness:
  "pid_inv
     \<lparr>self_config = PDict [], self_dt = 0.02, kp = 0.2, ki = 0.04, kd = 0.05, setpoint = 1800,
      output_min = 0, output_max = 1, deriv_filter_tau = 0.05, use_filter = True,
      integral = 3, previous_error = 0.01, derivative_state = 0\<rparr>
   \<and> length [0.5, 0.5, 1700 :: real] < 5
   \<and> PIDController_step
        \<lparr>self_config = PDict [], self_dt = 0.02, kp = 0.2, ki = 0.04, kd = 0.05,
         setpoint = 1800, output_min = 0, output_max = 1, deriv_filter_tau = 0.05,
         use_filter = True, integral = 3, previous_error = 0.01, derivative_state = 0\<rparr>
        [0.5, 0.5, 1700]
      = Inr (\<lparr>self_config = PDict [], self_dt = 0.02, kp = 0.2, ki = 0.04, kd = 0.05,
              setpoint = 1800, output_min = 0, output_max = 1, deriv_filter_tau = 0.05,
              use_filter = True, integral = 3, previous_error = 0, derivative_state = - 0.2\<rparr>,
             0.11)"
proof -
  have inv: "pid_inv
     \<lparr>self_config = PDict [], self_dt = 0.02, kp = 0.2, ki = 0.04, kd = 0.05, setpoint = 1800,
      output_min = 0, output_max = 1, deriv_filter_tau = 0.05, use_filter = True,
      integral = 3, previous_error = 0.01, derivative_state = 0\<rparr>"
    by (simp add: pid_inv_def)
  have short: "length [0.5, 0.5, 1700 :: real] < 5"
    by simp
  from pid_step_short_observation [OF inv short]
  have "PIDController_step
        \<lparr>self_config = PDict [], self_dt = 0.02, kp = 0.2, ki = 0.04, kd = 0.05,
         setpoint = 1800, output_min = 0, output_max = 1, deriv_filter_tau = 0.05,
         use_filter = True, integral = 3, previous_error = 0.01, derivative_state = 0\<rparr>
        [0.5, 0.5, 1700]
      = Inr (\<lparr>self_config = PDict [], self_dt = 0.02, kp = 0.2, ki = 0.04, kd = 0.05,
              setpoint = 1800, output_min = 0, output_max = 1, deriv_filter_tau = 0.05,
              use_filter = True, integral = 3, previous_error = 0, derivative_state = - 0.2\<rparr>,
             0.11)"
    by (elim conjE) (simp add: Let_def np_clip_def)
  with inv short show ?thesis by (intro conjI)
qed

text \<open>
  Claim C6, as the code has it. Constructing a controller with a configuration that is
  not a dict raises \<open>TypeError\<close>, and with a dict and a time step that is not a positive
  number raises \<open>ValueError\<close>, in \<open>BaseController.__init__\<close> and so in
  \<open>PIDController.__init__\<close>. An empty dict is not rejected: the PID controller is then
  built from its default parameters.
\<close>

theorem controller_init_rejects:
  assumes "\<not> isinstance_dict cfg \<or> \<not> positive_time_step dtv"
  shows "BaseController_init cfg dtv = Inl (if isinstance_dict cfg then ValueError else TypeError)
       \<and> PIDController_init str2float cfg dtv
           = Inl (if isinstance_dict cfg then ValueError else TypeError)"
proof -
  have b: "BaseController_init cfg dtv = Inl (if isinstance_dict cfg then ValueError else TypeError)"
    using assms
    by (cases dtv) (auto simp: BaseController_init_def positive_time_step_def)
  then show ?thesis
    by (simp add: PIDController_init_def)
qed

theorem controller_init_rejects_witness:
  "BaseController_init (PList []) (PFloat 0.02) = Inl TypeError
   \<and> PIDController_init (\<lambda>s. None) (PList []) (PFloat 0.02) = Inl TypeError
   \<and> BaseController_init (PDict [(''kp'', PFloat 1)]) (PInt 0) = Inl ValueError
   \<and> PIDController_init (\<lambda>s. None) (PDict [(''kp'', PFloat 1)]) (PInt 0) = Inl ValueError"
  using controller_init_rejects [of "PList []" "PFloat 0.02" "\<lambda>s. None"]
    controller_init_rejects [of "PDict [(''kp'', PFloat 1)]" "PInt 0" "\<lambda>s. None"]
  by (simp add: positive_time_step_def)

theorem controller_init_empty_config_counterexample:
  "\<not> nonempty_mapping (PDict [])
   \<and> BaseController_init (PDict []) (PFloat 0.02)
       = Inr \<lparr>self_config = PDict [], self_dt = 0.02\<rparr>
   \<and> PIDController_init (\<lambda>s. None) (PDict []) (PFloat 0.02)
       = Inr \<lparr>self_config = PDict [], self_dt = 0.02, kp = 0.2, ki = 0.04, kd = 0.05,
              setpoint = 1800, output_min = 0, output_max = 1, deriv_filter_tau = 0.05,
              use_filter = True, integral = 0, previous_error = 0, derivative_state = 0\<rparr>"
  by (simp add: BaseController_init_def PIDController_init_def get_float_def limit_at_def)

section \<open>Properties of the scenario library\<close>

text \<open>
  Claim C10. When the core configuration has no \<open>'simulation'\<close> key, or its
  \<open>'simulation'\<close> dict has no \<open>'dt'\<close> key, \<open>get_scenarios\<close> returns the empty mapping
  and raises nothing.
\<close>

theorem get_scenarios_missing_key:
  assumes "map_of d ''simulation'' = None
         \<or> (\<exists>sim. map_of d ''simulation'' = Some (PDict sim) \<and> map_of sim ''dt'' = None)"
  shows "get_scenarios (PDict d) = Inr []"
  using assms by (auto simp: get_scenarios_def scenario_config_values_def)

theorem get_scenarios_missing_key_witness:
  "get_scenarios (PDict [(''grid'', PDict [])]) = Inr []
   \<and> get_scenarios (PDict [(''simulation'', PDict [(''duration'', PFloat 10)])]) = Inr []"
  using get_scenarios_missing_key [of "[(''grid'', PDict [])]"]
    get_scenarios_missing_key [of "[(''simulation'', PDict [(''duration'', PFloat 10)])]"]
  by simp

lemma get_scenarios_Inr:
  assumes "scenario_config_values core_config = Inr (sim_dt, initial_load_base, eta_base)"
    and "get_scenarios core_config = Inr scenarios"
  shows "\<exists>dtv load eta. py_num sim_dt = Some dtv \<and> dtv \<noteq> 0 \<and> py_num initial_load_base = Some load
           \<and> py_num eta_base = Some eta
           \<and> scenarios = map (\<lambda>(name, config_dict). (name, ensure_reset_options config_dict))
                            (define_scenarios dtv load eta_base eta)"
  using assms by (auto simp: get_scenarios_def split: option.splits if_splits)

lemma sudden_entry:
  "map_of (map (\<lambda>(name, config_dict). (name, ensure_reset_options config_dict))
            (define_scenarios dtv load eta_base eta)) ''sudden_load_increase_5pct''
   = Some (PDict [(''description'', PStr ''Sudden +5% load increase from nominal.''),
         (''load_profile_func'', PFun (step_load_change load (load * 1.05) 20)),
         (''max_steps'', PInt (py_int (300 / dtv))),
         (''reset_options'', PDict [])])"
  by (simp add: define_scenarios_def)

text \<open>
  Claim C7. In the table that \<open>get_scenarios\<close> returns, the load profile of
  \<open>'sudden_load_increase_5pct'\<close> returns the initial load of the configuration at every
  time before 20 seconds and 1.05 times that load at every time from 20 seconds on,
  whatever the step index.
\<close>

theorem sudden_load_increase_profile:
  assumes "scenario_config_values core_config = Inr (sim_dt, initial_load_base, eta_base)"
    and "get_scenarios core_config = Inr scenarios"
  shows "\<exists>spec f initial.
           py_num initial_load_base = Some initial
         \<and> map_of scenarios ''sudden_load_increase_5pct'' = Some (PDict spec)
         \<and> map_of spec ''load_profile_func'' = Some (PFun f)
         \<and> (\<forall>time_s step. f time_s step = Inr (if time_s < 20 then initial else 1.05 * initial))"
proof -
  from get_scenarios_Inr[OF assms] obtain dtv load eta where
    "py_num initial_load_base = Some load"
    "scenarios = map (\<lambda>(name, config_dict). (name, ensure_reset_options config_dict))
                            (define_scenarios dtv load eta_base eta)" by blast
  then show ?thesis
    by (simp add: sudden_entry step_load_change_def not_less[symmetric])
qed

theorem sudden_load_increase_profile_witness:
  "\<exists>spec f initial.
     py_num (PInt 3000) = Some initial
   \<and> map_of (projr (get_scenarios
                (PDict [(''simulation'', PDict [(''dt'', PFloat 0.02)]),
                        (''initial_conditions'', PDict [(''electrical_load_mw'', PInt 3000)])])))
        ''sudden_load_increase_5pct'' = Some (PDict spec)
   \<and> map_of spec ''load_profile_func'' = Some (PFun f)
   \<and> (\<forall>time_s step. f time_s step = Inr (if time_s < 20 then initial else 1.05 * initial))"
  using sudden_load_increase_profile [of
      "PDict [(''simulation'', PDict [(''dt'', PFloat 0.02)]),
              (''initial_conditions'', PDict [(''electrical_load_mw'', PInt 3000)])]"
      "PFloat 0.02" "PInt 3000" "PFloat 0.98"
      "projr (get_scenarios
                (PDict [(''simulation'', PDict [(''dt'', PFloat 0.02)]),
                        (''initial_conditions'', PDict [(''electrical_load_mw'', PInt 3000)])]))"]
  by (simp add: scenario_config_values_def get_scenarios_def)

lemma ensure_reset_options_PDict:
  "\<exists>d. ensure_reset_options (PDict raw) = PDict d
       \<and> map_of d ''reset_options''
           = (case map_of raw ''reset_options'' of None \<Rightarrow> Some (PDict []) | Some v \<Rightarrow> Some v)"
  by (auto simp: map_add_def split: option.splits)

lemma get_scenarios_cases:
  assumes "get_scenarios core_config = Inr scenarios"
  shows "scenarios = []
       \<or> (\<exists>dtv load eta_base eta.
            scenarios = map (\<lambda>(name, config_dict). (name, ensure_reset_options config_dict))
                          (define_scenarios dtv load eta_base eta))"
proof (cases "scenario_config_values core_config")
  case (Inl e)
  with assms show ?thesis
    by (simp add: get_scenarios_def split: if_splits)
next
  case (Inr t)
  obtain sim_dt initial_load_base eta_base where "t = (sim_dt, initial_load_base, eta_base)"
    by (cases t)
  with Inr assms have "\<exists>dtv load eta.
      scenarios = map (\<lambda>(name, config_dict). (name, ensure_reset_options config_dict))
                          (define_scenarios dtv load eta_base eta)"
    by (auto simp: get_scenarios_def split: option.splits if_splits)
  then show ?thesis by (elim exE) (rule disjI2, intro exI)
qed

lemma define_scenarios_reset_options:
  assumes "(name, v) \<in> set (define_scenarios dtv load eta_base eta)"
  shows "\<exists>raw. v = PDict raw
          \<and> (if name \<in> {''sudden_load_increase_5pct'', ''steady_state_efficiency_probe'',
                        ''parameter_randomization_drills'', ''cascading_grid_fault_and_recovery'',
                        ''combined_challenge_final_exam''}
              then map_of raw ''reset_options'' = None
              else map_of raw ''reset_options''
                     = Some (PDict [(''initial_power_level'', PFloat 0.9)]))"
  using assms unfolding define_scenarios_def
  by (elim set_ConsD[elim_format] disjE) simp_all

text \<open>
  Claim C8. Every scenario specification in the table that \<open>get_scenarios\<close> returns is a
  dict with a \<open>'reset_options'\<close> key bound to a dict, and that dict is empty for every
  scenario whose definition, before the final loop, has no \<open>'reset_options'\<close>.
\<close>

theorem scenarios_have_reset_options:
  assumes "get_scenarios core_config = Inr scenarios" and "(name, spec) \<in> set scenarios"
  shows "\<exists>config_dict ro.
           spec = PDict config_dict
         \<and> map_of config_dict ''reset_options'' = Some (PDict ro)
         \<and> (\<forall>dtv load eta_base eta raw.
               (name, PDict raw) \<in> set (define_scenarios dtv load eta_base eta)
               \<longrightarrow> map_of raw ''reset_options'' = None \<longrightarrow> ro = [])"
proof -
  define unset where "unset =
     (name \<in> {''sudden_load_increase_5pct'', ''steady_state_efficiency_probe'',
              ''parameter_randomization_drills'', ''cascading_grid_fault_and_recovery'',
              ''combined_challenge_final_exam''})"
  have entry: "\<exists>raw. v = PDict raw
          \<and> (if unset then map_of raw ''reset_options'' = None
              else map_of raw ''reset_options''
                     = Some (PDict [(''initial_power_level'', PFloat 0.9)]))"
    if "(name, v) \<in> set (define_scenarios dtv load eta_base eta)"
    for v dtv load eta_base eta
    unfolding unset_def by (rule define_scenarios_reset_options[OF that])
  from assms(2) have "scenarios \<noteq> []" by (cases scenarios) simp_all
  with get_scenarios_cases[OF assms(1)] have
    "\<exists>dtv load eta_base eta.
       scenarios = map (\<lambda>(name, config_dict). (name, ensure_reset_options config_dict))
                          (define_scenarios dtv load eta_base eta)"
    by simp
  then obtain dtv load eta_base eta where
    sc: "scenarios = map (\<lambda>(name, config_dict). (name, ensure_reset_options config_dict))
                          (define_scenarios dtv load eta_base eta)"
    by (elim exE)
  from assms(2) have "(name, spec) \<in> (\<lambda>(name, config_dict). (name, ensure_reset_options config_dict))
                          ` set (define_scenarios dtv load eta_base eta)"
    unfolding sc set_map .
  then obtain x where x: "x \<in> set (define_scenarios dtv load eta_base eta)"
    "(name, spec) = (\<lambda>(name, config_dict). (name, ensure_reset_options config_dict)) x"
    by (rule imageE)
  obtain n v where nv: "x = (n, v)" by (cases x)
  with x have v: "(name, v) \<in> set (define_scenarios dtv load eta_base eta)"
    and spec: "spec = ensure_reset_options v"
    by simp_all
  from entry[OF v] obtain raw0 where raw0: "v = PDict raw0"
    and opt0: "if unset then map_of raw0 ''reset_options'' = None
              else map_of raw0 ''reset_options''
                     = Some (PDict [(''initial_power_level'', PFloat 0.9)])"
    by (elim exE conjE)
  from ensure_reset_options_PDict[of raw0] obtain d where d: "ensure_reset_options (PDict raw0) = PDict d"
    and md: "map_of d ''reset_options''
       = (case map_of raw0 ''reset_options'' of None \<Rightarrow> Some (PDict []) | Some v \<Rightarrow> Some v)"
    by (elim exE conjE)
  have sp: "spec = PDict d" using spec raw0 d by simp
  show ?thesis
  proof (cases unset)
    case True
    with opt0 md have "map_of d ''reset_options'' = Some (PDict [])" by simp
    with sp show ?thesis by simp
  next
    case False
    with opt0 md have m: "map_of d ''reset_options''
        = Some (PDict [(''initial_power_level'', PFloat 0.9)])" by simp
    have "map_of raw ''reset_options'' \<noteq> None"
      if "(name, PDict raw) \<in> set (define_scenarios dtv' load' eta_base' eta')"
      for dtv' load' eta_base' eta' raw
      using entry[OF that] False by simp
    with sp m show ?thesis by simp
  qed
qed

theorem scenarios_have_reset_options_witness:
  "get_scenarios (PDict [(''simulation'', PDict [(''dt'', PFloat 0.02)])])
     = Inr (map (\<lambda>(name, config_dict). (name, ensure_reset_options config_dict))
              (define_scenarios 0.02 3008.5 (PFloat 0.98) 0.98))
   \<and> (''steady_state_efficiency_probe'',
       ensure_reset_options (PDict
        [(''description'', PStr ''RL Drill: A long, quiet hold to enforce control efficiency.''),
         (''load_profile_func'', PFun (constant_load 3008.5)),
         (''max_steps'', PInt (py_int (1800 / 0.02))),
         (''is_efficiency_probe'', PBool True)]))
      \<in> set (map (\<lambda>(name, config_dict). (name, ensure_reset_options config_dict))
              (define_scenarios 0.02 3008.5 (PFloat 0.98) 0.98))
   \<and> (\<exists>config_dict.
        ensure_reset_options (PDict
        [(''description'', PStr ''RL Drill: A long, quiet hold to enforce control efficiency.''),
         (''load_profile_func'', PFun (constant_load 3008.5)),
         (''max_steps'', PInt (py_int (1800 / 0.02))),
         (''is_efficiency_probe'', PBool True)]) = PDict config_dict
      \<and> map_of config_dict ''reset_options'' = Some (PDict []))"
proof -
  have g: "get_scenarios (PDict [(''simulation'', PDict [(''dt'', PFloat 0.02)])])
     = Inr (map (\<lambda>(name, config_dict). (name, ensure_reset_options config_dict))
              (define_scenarios 0.02 3008.5 (PFloat 0.98) 0.98))"
    by (simp add: get_scenarios_def scenario_config_values_def)
  have r: "(''steady_state_efficiency_probe'', PDict
        [(''description'', PStr ''RL Drill: A long, quiet hold to enforce control efficiency.''),
         (''load_profile_func'', PFun (constant_load 3008.5)),
         (''max_steps'', PInt (py_int (1800 / 0.02))),
         (''is_efficiency_probe'', PBool True)])
      \<in> set (define_scenarios 0.02 3008.5 (PFloat 0.98) 0.98)"
    unfolding define_scenarios_def by simp
  have m: "(''steady_state_efficiency_probe'',
       ensure_reset_options (PDict
        [(''description'', PStr ''RL Drill: A long, quiet hold to enforce control efficiency.''),
         (''load_profile_func'', PFun (constant_load 3008.5)),
         (''max_steps'', PInt (py_int (1800 / 0.02))),
         (''is_efficiency_probe'', PBool True)]))
      \<in> set (map (\<lambda>(name, config_dict). (name, ensure_reset_options config_dict))
              (define_scenarios 0.02 3008.5 (PFloat 0.98) 0.98))"
    unfolding set_map by (rule image_eqI[OF _ r]) simp
  from scenarios_have_reset_options [OF g m] obtain config_dict ro where
    c: "ensure_reset_options (PDict
        [(''description'', PStr ''RL Drill: A long, quiet hold to enforce control efficiency.''),
         (''load_profile_func'', PFun (constant_load 3008.5)),
         (''max_steps'', PInt (py_int (1800 / 0.02))),
         (''is_efficiency_probe'', PBool True)]) = PDict config_dict"
      and c2: "map_of config_dict ''reset_options'' = Some (PDict ro)"
      and c3: "\<forall>dtv load eta_base eta raw.
               (''steady_state_efficiency_probe'', PDict raw) \<in> set (define_scenarios dtv load eta_base eta)
               \<longrightarrow> map_of raw ''reset_options'' = None \<longrightarrow> ro = []"
    by (elim exE conjE)
  from c3[rule_format, OF r] have "ro = []" by simp
  with c c2 g m show ?thesis by simp
qed

section \<open>Properties of the metrics engine\<close>

lemma METRIC_KEYS_mem:
  "''transient_severity_score'' \<in> set METRIC_KEYS"
  "''grid_load_following_index'' \<in> set METRIC_KEYS"
  "''agility_response_time_index'' \<in> set METRIC_KEYS"
  "''integrated_thermal_margin_violation_c_s'' \<in> set METRIC_KEYS"
  "''thermal_transient_burden'' \<in> set METRIC_KEYS"
  "''core_power_oscillation_index'' \<in> set METRIC_KEYS"
  "''max_rotor_angle_deviation_rad'' \<in> set METRIC_KEYS"
  "''negative_damping_events'' \<in> set METRIC_KEYS"
  "''control_policy_entropy'' \<in> set METRIC_KEYS"
  "''max_overshoot_speed_pct'' \<in> set METRIC_KEYS"
  "''max_undershoot_speed_pct'' \<in> set METRIC_KEYS"
  "''iae_freq_hz_s'' \<in> set METRIC_KEYS"
  "''ise_freq_hz_s'' \<in> set METRIC_KEYS"
  "''time_over_fuel_temp_limit_s'' \<in> set METRIC_KEYS"
  "''time_over_speed_limit_s'' \<in> set METRIC_KEYS"
  "''time_outside_freq_limit_s'' \<in> set METRIC_KEYS"
  "''total_time_unsafe_s'' \<in> set METRIC_KEYS"
  "''max_fuel_temp_c'' \<in> set METRIC_KEYS"
  "''max_speed_rpm'' \<in> set METRIC_KEYS"
  "''max_freq_deviation_hz'' \<in> set METRIC_KEYS"
  "''min_freq_nadir_hz'' \<in> set METRIC_KEYS"
  "''control_effort_valve_abs_sum'' \<in> set METRIC_KEYS"
  "''control_effort_valve_sq_sum'' \<in> set METRIC_KEYS"
  "''valve_reversals'' \<in> set METRIC_KEYS"
  by (simp_all add: METRIC_KEYS_def)

lemma keeps_value: "(\<And>x. keeps_keys (f x)) \<Longrightarrow> keeps_keys (and_then r f)"
  by (cases r) (simp_all add: and_then_def keeps_keys_def)

lemmas keeps_column = keeps_value [where r = "r :: error + fl list" for r]
lemmas keeps_pyval = keeps_value [where r = "r :: error + pyval" for r]
lemmas keeps_bool = keeps_value [where r = "r :: error + bool" for r]
lemmas keeps_string = keeps_value [where r = "r :: error + string" for r]

lemma keeps_metrics:
  "keeps_keys r \<Longrightarrow> (\<And>m. map fst m = METRIC_KEYS \<Longrightarrow> keeps_keys (f m)) \<Longrightarrow> keeps_keys (and_then r f)"
  by (cases r) (simp_all add: and_then_def keeps_keys_def)

lemma keeps_assign:
  "map fst m = METRIC_KEYS \<Longrightarrow> k \<in> set METRIC_KEYS \<Longrightarrow> keeps_keys (assign k r m)"
  by (cases r) (simp_all add: assign_def and_then_def keeps_keys_def update_keys)

lemma keeps_update:
  "map fst m = METRIC_KEYS \<Longrightarrow> k \<in> set METRIC_KEYS \<Longrightarrow> keeps_keys (Inr (AList.update k v m))"
  by (simp add: keeps_keys_def update_keys)

lemma keeps_Inr: "map fst m = METRIC_KEYS \<Longrightarrow> keeps_keys (Inr m)"
  by (simp add: keeps_keys_def)

lemma keeps_if: "(b \<Longrightarrow> keeps_keys x) \<Longrightarrow> (\<not> b \<Longrightarrow> keeps_keys y) \<Longrightarrow> keeps_keys (if b then x else y)"
  by simp

lemmas keeps_rules = keeps_column keeps_pyval keeps_bool keeps_string keeps_metrics keeps_assign
  keeps_update keeps_Inr keeps_if METRIC_KEYS_mem

lemma load_following_keeps:
  "map fst m = METRIC_KEYS \<Longrightarrow> keeps_keys (load_following lib df m)"
  unfolding load_following_def Let_def by (intro keeps_rules)

lemma agility_keeps:
  "map fst m = METRIC_KEYS \<Longrightarrow> keeps_keys (agility lib self df sc m)"
  unfolding agility_def Let_def by (intro keeps_rules)

lemma thermal_margin_keeps:
  "map fst m = METRIC_KEYS \<Longrightarrow> keeps_keys (thermal_margin lib self df time m)"
  unfolding thermal_margin_def Let_def by (intro keeps_rules)

lemma thermal_burden_keeps:
  "map fst m = METRIC_KEYS \<Longrightarrow> keeps_keys (thermal_burden lib df time dt m)"
  unfolding thermal_burden_def Let_def by (intro keeps_rules)

lemma power_oscillation_keeps:
  "map fst m = METRIC_KEYS \<Longrightarrow> keeps_keys (power_oscillation lib df m)"
  unfolding power_oscillation_def Let_def by (intro keeps_rules)

lemma rotor_angle_keeps:
  "map fst m = METRIC_KEYS \<Longrightarrow> keeps_keys (rotor_angle lib df m)"
  unfolding rotor_angle_def Let_def by (intro keeps_rules)

lemma negative_damping_keeps:
  "map fst m = METRIC_KEYS \<Longrightarrow> keeps_keys (negative_damping lib df f_nom m)"
  unfolding negative_damping_def Let_def by (intro keeps_rules)

lemma policy_entropy_keeps:
  "map fst m = METRIC_KEYS \<Longrightarrow> keeps_keys (policy_entropy lib df m)"
  unfolding policy_entropy_def Let_def by (intro keeps_rules)

lemma standard_metrics_keeps:
  "map fst m = METRIC_KEYS \<Longrightarrow> keeps_keys (standard_metrics lib df f_nom m)"
  unfolding standard_metrics_def Let_def by (intro keeps_rules)

lemma overshoot_keeps:
  "map fst m = METRIC_KEYS \<Longrightarrow> keeps_keys (overshoot lib df target m)"
  unfolding overshoot_def Let_def by (intro keeps_rules)

lemma freq_integrals_keeps:
  "map fst m = METRIC_KEYS \<Longrightarrow> keeps_keys (freq_integrals lib df time f_nom m)"
  unfolding freq_integrals_def Let_def by (intro keeps_rules)

lemma valve_effort_keeps:
  "map fst m = METRIC_KEYS \<Longrightarrow> keeps_keys (valve_effort lib df m)"
  unfolding valve_effort_def Let_def by (intro keeps_rules)

lemma transient_severity_keeps:
  "map fst m = METRIC_KEYS \<Longrightarrow> keeps_keys (transient_severity lib self target m)"
  unfolding transient_severity_def Let_def by (intro keeps_rules)

lemma unsafe_times_keeps:
  "map fst m = METRIC_KEYS \<Longrightarrow> keeps_keys (unsafe_times lib self df dt m)"
  unfolding unsafe_times_def Let_def by (intro keeps_rules)

lemma calculate_body_keeps:
  "map fst m = METRIC_KEYS \<Longrightarrow> keeps_keys (calculate_body lib self df sc m)"
  unfolding calculate_body_def Let_def
  by (intro keeps_rules load_following_keeps agility_keeps thermal_margin_keeps
      thermal_burden_keeps power_oscillation_keeps rotor_angle_keeps negative_damping_keeps
      policy_entropy_keeps standard_metrics_keeps overshoot_keeps freq_integrals_keeps
      valve_effort_keeps transient_severity_keeps unsafe_times_keeps)

lemma nan_metrics_keys: "map fst nan_metrics = METRIC_KEYS"
  by (simp add: nan_metrics_def comp_def)

lemma map_of_constant: "k \<in> set ks \<Longrightarrow> map_of (map (\<lambda>key. (key, v)) ks) k = Some v"
  by (induction ks) auto

lemma nan_metrics_values: "k \<in> set METRIC_KEYS \<Longrightarrow> map_of nan_metrics k = Some NaN"
  unfolding nan_metrics_def by (rule map_of_constant)

lemma METRIC_KEYS_24: "length METRIC_KEYS = 24 \<and> distinct METRIC_KEYS"
  by (simp add: METRIC_KEYS_def)


text \<open>
  Claim C2. For every DataFrame and every scenario configuration, whatever the numerical
  library does, \<open>MetricsEngine.calculate\<close> returns a dictionary and raises nothing; its
  keys are the 24 keys of \<open>METRIC_KEYS\<close>; when the frame is empty, has no \<open>time_s\<close>
  column or has fewer than 20 rows, and when the body of the \<open>try\<close> block raises, the
  result is the dictionary that maps each of the 24 keys to NaN.
\<close>

theorem calculate_never_raises:
  "\<exists>m. calculate lib self results_df scenario_config = Inr m
       \<and> map fst m = METRIC_KEYS \<and> length METRIC_KEYS = 24 \<and> distinct METRIC_KEYS
       \<and> (df_empty results_df \<or> \<not> has_column results_df ''time_s'' \<or> df_len results_df < 20
            \<longrightarrow> m = nan_metrics)
       \<and> ((\<exists>e. calculate_body lib self results_df scenario_config nan_metrics = Inl e)
            \<longrightarrow> m = nan_metrics)
       \<and> (\<forall>key \<in> set METRIC_KEYS. map_of nan_metrics key = Some NaN)"
proof (cases "df_empty results_df \<or> \<not> has_column results_df ''time_s'' \<or> df_len results_df < 20")
  case True
  then have "calculate lib self results_df scenario_config = Inr nan_metrics"
    by (simp add: calculate_def)
  then show ?thesis
    using True METRIC_KEYS_24 by (simp add: nan_metrics_keys nan_metrics_values)
next
  case False
  show ?thesis
  proof (cases "calculate_body lib self results_df scenario_config nan_metrics")
    case (Inl e)
    with False have "calculate lib self results_df scenario_config = Inr nan_metrics"
      by (simp add: calculate_def)
    then show ?thesis
      using METRIC_KEYS_24 by (simp add: nan_metrics_keys nan_metrics_values)
  next
    case (Inr m)
    with False have "calculate lib self results_df scenario_config = Inr m"
      by (simp add: calculate_def)
    moreover have "map fst m = METRIC_KEYS"
      using calculate_body_keeps[OF nan_metrics_keys, of lib self results_df scenario_config] Inr
      by (simp add: keeps_keys_def)
    ultimately show ?thesis
      using False Inr METRIC_KEYS_24 by (simp add: nan_metrics_values)
  qed
qed

theorem calculate_never_raises_witness:
  "df_empty \<lparr>df_len = 0, df_columns = []\<rparr>
   \<and> calculate \<lparr>expr = (\<lambda>name columns values floats. Inr (Num 1)),
                 test = (\<lambda>name columns values floats. Inr True)\<rparr>
        \<lparr>me_config = PDict [], safety_limits = PDict []\<rparr>
        \<lparr>df_len = 0, df_columns = []\<rparr> (PDict []) = Inr nan_metrics
   \<and> \<not> df_empty \<lparr>df_len = 20, df_columns = [(''time_s'', replicate 20 (Num 0))]\<rparr>
   \<and> calculate_body \<lparr>expr = (\<lambda>name columns values floats. Inr (Num 1)),
                 test = (\<lambda>name columns values floats. Inr True)\<rparr>
        \<lparr>me_config = PDict [], safety_limits = PDict []\<rparr>
        \<lparr>df_len = 20, df_columns = [(''time_s'', replicate 20 (Num 0))]\<rparr> (PDict [])
        nan_metrics = Inl KeyError
   \<and> calculate \<lparr>expr = (\<lambda>name columns values floats. Inr (Num 1)),
                 test = (\<lambda>name columns values floats. Inr True)\<rparr>
        \<lparr>me_config = PDict [], safety_limits = PDict []\<rparr>
        \<lparr>df_len = 20, df_columns = [(''time_s'', replicate 20 (Num 0))]\<rparr> (PDict [])
       = Inr nan_metrics"
proof -
  have e: "df_empty \<lparr>df_len = 0, df_columns = []\<rparr>"
    by (simp add: df_empty_def)
  have n: "\<not> df_empty \<lparr>df_len = 20, df_columns = [(''time_s'', replicate 20 (Num 0))]\<rparr>"
    by (simp add: df_empty_def)
  have b: "calculate_body \<lparr>expr = (\<lambda>name columns values floats. Inr (Num 1)),
                 test = (\<lambda>name columns values floats. Inr True)\<rparr>
        \<lparr>me_config = PDict [], safety_limits = PDict []\<rparr>
        \<lparr>df_len = 20, df_columns = [(''time_s'', replicate 20 (Num 0))]\<rparr> (PDict [])
        nan_metrics = Inl KeyError"
    by (simp add: calculate_body_def load_following_def df_col_def and_then_def config_get2_def
        Let_def)
  show ?thesis
    using e n b
      calculate_never_raises [of
        "\<lparr>expr = (\<lambda>name columns values floats. Inr (Num 1)),
                 test = (\<lambda>name columns values floats. Inr True)\<rparr>"
        "\<lparr>me_config = PDict [], safety_limits = PDict []\<rparr>"
        "\<lparr>df_len = 0, df_columns = []\<rparr>" "PDict []"]
      calculate_never_raises [of
        "\<lparr>expr = (\<lambda>name columns values floats. Inr (Num 1)),
                 test = (\<lambda>name columns values floats. Inr True)\<rparr>"
        "\<lparr>me_config = PDict [], safety_limits = PDict []\<rparr>"
        "\<lparr>df_len = 20, df_columns = [(''time_s'', replicate 20 (Num 0))]\<rparr>" "PDict []"]
    by auto
qed

text \<open>
  The computation on a frame of 20 rows that has every required column, for a library
  whose expressions all evaluate to 1: the three conditional metrics whose columns are
  absent or all NaN stay NaN, and the total unsafe time is the sum of its three parts.
\<close>

lemma calculate_full_frame_example:
  "calculate \<lparr>expr = (\<lambda>name columns values floats. Inr (Num 1)),
              test = (\<lambda>name columns values floats. Inr True)\<rparr>
     \<lparr>me_config = PDict [], safety_limits = PDict []\<rparr>
     \<lparr>df_len = 20,
      df_columns = [(''time_s'', replicate 20 (Num 0)),
                    (''load_demand_mw'', replicate 20 (Num 0)),
                    (''mechanical_power_mw'', replicate 20 (Num 0)),
                    (''T_fuel'', replicate 20 (Num 0)),
                    (''reactor_power_mw'', replicate 20 (Num 0)),
                    (''grid_frequency_hz'', replicate 20 (Num 60)),
                    (''v_pos_actual'', replicate 20 NaN),
                    (''speed_rpm'', replicate 20 (Num 1800))]\<rparr>
     (PDict [(''description'', PStr ''Sudden +5% load increase from nominal.'')])
   = Inr [(''transient_severity_score'', Num 1), (''grid_load_following_index'', Num 1),
          (''agility_response_time_index'', Num 1),
          (''integrated_thermal_margin_violation_c_s'', Num 1),
          (''thermal_transient_burden'', NaN), (''core_power_oscillation_index'', Num 1),
          (''max_rotor_angle_deviation_rad'', NaN), (''negative_damping_events'', Num 1),
          (''control_policy_entropy'', NaN),
          (''max_overshoot_speed_pct'', Num 1), (''max_undershoot_speed_pct'', Num 1),
          (''iae_freq_hz_s'', Num 1), (''ise_freq_hz_s'', Num 1),
          (''time_over_fuel_temp_limit_s'', Num 1), (''time_over_speed_limit_s'', Num 1),
          (''time_outside_freq_limit_s'', Num 1),
          (''total_time_unsafe_s'', Num 3), (''max_fuel_temp_c'', Num 1), (''max_speed_rpm'', Num 1),
          (''max_freq_deviation_hz'', Num 1),
          (''min_freq_nadir_hz'', Num 1), (''control_effort_valve_abs_sum'', Num 1),
          (''control_effort_valve_sq_sum'', Num 1),
          (''valve_reversals'', Num 1)]"
  by code_simp

end
